theory Spec2Isabelle
  imports Main "HOL-Library.Word" "HOL-Library.Sublist"
begin

section \<open>Platform values: thrown values, strings, files\<close>

text \<open>
  JavaScript strings are modelled as \<^typ>\<open>string\<close>; every string the modelled code
  inspects (data URLs, MIME types, base64 text, the binary string of \<open>atob\<close>) has code
  units below 256, which is what a \<^typ>\<open>char\<close> holds.  A thrown value is an \<open>Error\<close>
  with its message, the \<open>ProgressEvent\<close> a \<open>FileReader\<close> hands to \<open>onerror\<close> (it has no
  \<open>message\<close> property), or a \<open>DOMException\<close> with its name.
\<close>

datatype exn = Error string | ProgressEvent | DOMException string

fun message :: "exn \<Rightarrow> string option" where
  "message (Error m) = Some m"
| "message ProgressEvent = None"
| "message (DOMException n) = Some n"

text \<open>\<open>String.prototype.split\<close> with a one-character separator.\<close>

fun split_on :: "char \<Rightarrow> string \<Rightarrow> string list" where
  "split_on d [] = [[]]"
| "split_on d (c # cs) =
     (if c = d then [] # split_on d cs
      else (case split_on d cs of w # ws \<Rightarrow> (c # w) # ws | [] \<Rightarrow> [[c]]))"

text \<open>
  \<open>str.match(/:(.*?);/)\<close>: the leftmost colon from which a lazy run of characters other
  than line terminators reaches a semicolon; the result is the captured group.
\<close>

definition is_line_terminator :: "char \<Rightarrow> bool" where
  "is_line_terminator c \<longleftrightarrow> c = CHR 0x0A \<or> c = CHR 0x0D"

fun lazy_until_semicolon :: "string \<Rightarrow> string option" where
  "lazy_until_semicolon [] = None"
| "lazy_until_semicolon (c # cs) =
     (if c = CHR '';'' then Some []
      else if is_line_terminator c then None
      else map_option ((#) c) (lazy_until_semicolon cs))"

fun match_mime :: "string \<Rightarrow> string option" where
  "match_mime [] = None"
| "match_mime (c # cs) =
     (if c = CHR '':'' then
        (case lazy_until_semicolon cs of Some g \<Rightarrow> Some g | None \<Rightarrow> match_mime cs)
      else match_mime cs)"

subsection \<open>Base64 as the platform computes it\<close>

definition b64_char :: "nat \<Rightarrow> char" where
  "b64_char i =
     (if i < 26 then char_of (65 + i)
      else if i < 52 then char_of (71 + i)
      else if i < 62 then char_of (i - 4)
      else if i = 62 then CHR ''+'' else CHR ''/'')"

definition b64_value :: "char \<Rightarrow> nat option" where
  "b64_value c =
     (let n = (of_char c :: nat) in
      if 65 \<le> n \<and> n \<le> 90 then Some (n - 65)
      else if 97 \<le> n \<and> n \<le> 122 then Some (n - 71)
      else if 48 \<le> n \<and> n \<le> 57 then Some (n + 4)
      else if n = 43 then Some 62
      else if n = 47 then Some 63
      else None)"

text \<open>
  The \<open>k\<close>-th six-bit group and the \<open>k\<close>-th byte of a number, counted from the least
  significant end.
\<close>

definition sextet :: "nat \<Rightarrow> nat \<Rightarrow> nat" where
  "sextet n k = n div 64 ^ k mod 64"

definition octet :: "nat \<Rightarrow> nat \<Rightarrow> nat" where
  "octet n k = n div 256 ^ k mod 256"

text \<open>The encoder of \<open>FileReader.readAsDataURL\<close>: three bytes give four characters;
  a tail of two bytes is shifted to 18 bits, a tail of one byte to 12 bits, and padded
  with \<open>=\<close>.\<close>

definition pack3 :: "8 word \<Rightarrow> 8 word \<Rightarrow> 8 word \<Rightarrow> nat" where
  "pack3 a b c = (unat a * 256 + unat b) * 256 + unat c"

definition pack2 :: "8 word \<Rightarrow> 8 word \<Rightarrow> nat" where
  "pack2 a b = (unat a * 256 + unat b) * 4"

definition pack1 :: "8 word \<Rightarrow> nat" where
  "pack1 a = unat a * 16"

fun sextets :: "8 word list \<Rightarrow> nat list" where
  "sextets (a # b # c # rest) =
     [sextet (pack3 a b c) 3, sextet (pack3 a b c) 2, sextet (pack3 a b c) 1,
      sextet (pack3 a b c) 0] @ sextets rest"
| "sextets [a, b] = [sextet (pack2 a b) 2, sextet (pack2 a b) 1, sextet (pack2 a b) 0]"
| "sextets [a] = [sextet (pack1 a) 1, sextet (pack1 a) 0]"
| "sextets [] = []"

definition padding :: "8 word list \<Rightarrow> string" where
  "padding bs = replicate ((3 - length bs mod 3) mod 3) CHR ''=''"

definition base64_encode :: "8 word list \<Rightarrow> string" where
  "base64_encode bs = map b64_char (sextets bs) @ padding bs"

text \<open>
  \<open>atob\<close> is the forgiving base64 decoder: ASCII whitespace is dropped; when the length
  is a multiple of four, one or two trailing \<open>=\<close> are removed; a length of one modulo
  four or a character outside the alphabet throws \<open>InvalidCharacterError\<close>; a final group
  of two or three characters gives one or two bytes.
\<close>

definition is_ascii_whitespace :: "char \<Rightarrow> bool" where
  "is_ascii_whitespace c \<longleftrightarrow>
     c = CHR 0x09 \<or> c = CHR 0x0A \<or> c = CHR 0x0C \<or> c = CHR 0x0D \<or> c = CHR 0x20"

definition strip_padding :: "string \<Rightarrow> string" where
  "strip_padding d =
     (if length d mod 4 = 0 then
        (case rev d of
           p # q # r \<Rightarrow>
             (if p = CHR ''='' then (if q = CHR ''='' then rev r else rev (q # r)) else d)
         | _ \<Rightarrow> d)
      else d)"

definition unpack4 :: "nat \<Rightarrow> nat \<Rightarrow> nat \<Rightarrow> nat \<Rightarrow> nat" where
  "unpack4 s1 s2 s3 s4 = ((s1 * 64 + s2) * 64 + s3) * 64 + s4"

definition unpack3 :: "nat \<Rightarrow> nat \<Rightarrow> nat \<Rightarrow> nat" where
  "unpack3 s1 s2 s3 = ((s1 * 64 + s2) * 64 + s3) div 4"

definition unpack2 :: "nat \<Rightarrow> nat \<Rightarrow> nat" where
  "unpack2 s1 s2 = (s1 * 64 + s2) div 16"

fun b64_groups :: "nat list \<Rightarrow> string" where
  "b64_groups (s1 # s2 # s3 # s4 # rest) =
     [char_of (octet (unpack4 s1 s2 s3 s4) 2), char_of (octet (unpack4 s1 s2 s3 s4) 1),
      char_of (octet (unpack4 s1 s2 s3 s4) 0)] @ b64_groups rest"
| "b64_groups [s1, s2, s3] =
     [char_of (octet (unpack3 s1 s2 s3) 1), char_of (octet (unpack3 s1 s2 s3) 0)]"
| "b64_groups [s1, s2] = [char_of (octet (unpack2 s1 s2) 0)]"
| "b64_groups _ = []"

definition atob :: "string \<Rightarrow> exn + string" where
  "atob data =
     (let d = strip_padding (filter (\<lambda>c. \<not> is_ascii_whitespace c) data)
      in if length d mod 4 = 1 then Inl (DOMException ''InvalidCharacterError'')
         else (case those (map b64_value d) of
                 None \<Rightarrow> Inl (DOMException ''InvalidCharacterError'')
               | Some vs \<Rightarrow> Inr (b64_groups vs)))"

subsection \<open>Files\<close>

text \<open>
  A \<open>File\<close> has its bytes, its name and its \<open>type\<close>; \<open>readable\<close> says whether a
  \<open>FileReader\<close> can still read it (a picked file can vanish from disk).  The \<open>File\<close>
  constructor lower-cases the type it is given and replaces a type with a character
  outside U+0020..U+007E by the empty string.
\<close>

record File =
  fbytes :: "8 word list"
  fname :: string
  ftype :: string
  readable :: bool

definition ascii_lower :: "char \<Rightarrow> char" where
  "ascii_lower c =
     (let n = (of_char c :: nat) in if 65 \<le> n \<and> n \<le> 90 then char_of (n + 32) else c)"

definition printable :: "char \<Rightarrow> bool" where
  "printable c \<longleftrightarrow> 32 \<le> (of_char c :: nat) \<and> (of_char c :: nat) \<le> 126"

definition normalize_type :: "string \<Rightarrow> string" where
  "normalize_type ty = (if list_all printable ty then map ascii_lower ty else [])"

definition new_File :: "8 word list \<Rightarrow> string \<Rightarrow> string \<Rightarrow> File" where
  "new_File bs name ty =
     \<lparr>fbytes = bs, fname = name, ftype = normalize_type ty, readable = True\<rparr>"

definition readAsDataURL :: "File \<Rightarrow> exn + string" where
  "readAsDataURL f =
     (if readable f then
        Inr (''data:'' @ (if ftype f = [] then ''application/octet-stream'' else ftype f)
             @ '';base64,'' @ base64_encode (fbytes f))
      else Inl ProgressEvent)"

section \<open>Image codec utilities (App.tsx)\<close>

definition fileToBase64 :: "File \<Rightarrow> exn + string" where
  "fileToBase64 file =
     (case readAsDataURL file of
        Inl e \<Rightarrow> Inl e
      | Inr result \<Rightarrow>
          (let parts = split_on CHR '','' result
           in if length parts < 2 \<or> parts ! 1 = []
              then Inl (Error ''Failed to read base64 string from file.'')
              else Inr (parts ! 1)))"

text \<open>The loop \<open>while (n--) u8arr[n] = bstr.charCodeAt(n)\<close> over a zero-filled array.\<close>

fun fill_u8 :: "nat \<Rightarrow> string \<Rightarrow> 8 word list \<Rightarrow> 8 word list" where
  "fill_u8 0 bstr u8arr = u8arr"
| "fill_u8 (Suc n) bstr u8arr = fill_u8 n bstr (u8arr[n := of_nat (of_char (bstr ! n))])"

text \<open>\<open>dataURLtoFile\<close> returns \<open>null\<close> (here \<open>Inr None\<close>) for a string without a comma or
  without a MIME segment, and lets the exception of \<open>atob\<close> escape.\<close>

definition dataURLtoFile :: "string \<Rightarrow> string \<Rightarrow> exn + File option" where
  "dataURLtoFile dataurl filename =
     (let arr = split_on CHR '','' dataurl
      in if length arr < 2 then Inr None
         else (case match_mime (arr ! 0) of
                 None \<Rightarrow> Inr None
               | Some mime \<Rightarrow>
                   (case atob (arr ! 1) of
                      Inl e \<Rightarrow> Inl e
                    | Inr bstr \<Rightarrow>
                        Inr (Some (new_File
                          (fill_u8 (length bstr) bstr (replicate (length bstr) 0))
                          filename mime)))))"

definition data_url :: "string \<Rightarrow> string \<Rightarrow> string" where
  "data_url mimeType b64 = ''data:'' @ mimeType @ '';base64,'' @ b64"


section \<open>Types of the application (App.tsx)\<close>

datatype View = Start | TryOn | History | Result | Loading

datatype StyleTheme = Photorealistic | MagazineCover | Artistic

datatype Language = En | Ru

datatype Theme = Light | Dark | Sunset

record UploadedImage =
  "file" :: File
  previewUrl :: string

record HistoryItem =
  person :: string
  clothing :: string
  result :: string

text \<open>The fields of \<open>SavedSession\<close> carry a prefix, the state has fields of the same names.\<close>

record SavedSession =
  session_personImage :: string
  session_clothingImage :: string
  session_removeBgEnabled :: bool
  session_styleTheme :: StyleTheme

record ClothingSuggestion =
  name :: string
  description :: string

text \<open>A value of the suggestion-image record: the string \<open>'loading'\<close> or a payload
  \<open>{url, mimeType, file}\<close>.\<close>

datatype SuggestionImage = ImageLoading | ImageReady string string File

text \<open>The keys of the translation table that the modelled handlers look up.\<close>

datatype TranslationKey =
    errorInvalidImage | errorNeedBothImagesUpload | errorNeedBothImages | errorUnexpected
  | errorSelectStyle | errorSaveSession | magicMessage | removingBackground | generatingLook
  | gettingSuggestions | generatingImageGallery | sessionSaved

section \<open>The AI gateway (services/geminiService)\<close>

text \<open>
  A request to the external model, as the four gateway functions build it.  The two system
  instructions of \<open>getClothingSuggestions\<close> are string literals of the source (one of them
  Russian); they are kept as two named constants.
\<close>

datatype part = InlineData string string | TextPart string

datatype contents = Prompt string | Parts "part list"

datatype instruction = StylistInstructionRu | StylistInstructionEn

datatype modality = IMAGE

record request =
  model :: string
  contents :: contents
  systemInstruction :: "instruction option"
  responseMimeType :: "string option"
  responseSchema :: bool
  responseModalities :: "modality list"

text \<open>
  A response: the parts of each candidate, the block reason of the prompt feedback, and
  what \<open>JSON.parse(response.text)\<close> finds: no JSON at all, JSON without a
  \<open>suggestions\<close> array, or the array (typed as the source types it).
\<close>

datatype reply_text = NotJSON | NoSuggestions | Suggestions "ClothingSuggestion list"

record response =
  candidates :: "part list list"
  blockReason :: "string option"
  rtext :: reply_text

record ImageResult =
  data :: string
  mimeType :: string

text \<open>
  The values the application passes through \<open>JSON.stringify\<close> and \<open>JSON.parse\<close>; \<open>JOther\<close>
  stands for any JSON value of another shape.
\<close>

datatype json = JBool bool | JHistory "HistoryItem list" | JSession SavedSession | JOther

text \<open>
  The environment of a run: the configured credential, the external model (its reply to
  the \<open>k\<close>-th request the application has sent, or the exception of the failed call), the
  translation table, which is not among the sources and is a parameter here, and the JSON
  codec of the platform (\<open>JSON.parse\<close> throws a \<open>SyntaxError\<close> on a text that is not JSON).
\<close>

record env =
  API_KEY :: "string option"
  generateContent :: "nat \<Rightarrow> request \<Rightarrow> exn + response"
  translation_table :: "Language \<Rightarrow> TranslationKey \<Rightarrow> string"
  JSON_stringify :: "json \<Rightarrow> string"
  JSON_parse :: "string \<Rightarrow> exn + json"

definition has_API_KEY :: "env \<Rightarrow> bool" where
  "has_API_KEY e \<longleftrightarrow> (case API_KEY e of None \<Rightarrow> False | Some k \<Rightarrow> k \<noteq> [])"

definition fileToGenerativePart :: "string \<Rightarrow> string \<Rightarrow> part" where
  "fileToGenerativePart base64Data mimeType' = InlineData base64Data mimeType'"

fun is_inlineData :: "part \<Rightarrow> bool" where
  "is_inlineData (InlineData d m) = True"
| "is_inlineData (TextPart x) = False"

text \<open>\<open>response.candidates?.[0]?.content?.parts?.find(part => part.inlineData)\<close>\<close>

definition find_imagePart :: "response \<Rightarrow> ImageResult option" where
  "find_imagePart r =
     (case candidates r of
        [] \<Rightarrow> None
      | parts # _ \<Rightarrow>
          (case find is_inlineData parts of
             Some (InlineData d m) \<Rightarrow> Some \<lparr>data = d, mimeType = m\<rparr>
           | _ \<Rightarrow> None))"

text \<open>
  Every gateway function returns the requests it has sent together with its outcome.
  Inside its \<open>try\<close> block each of them throws a specific error, and its \<open>catch\<close> replaces
  whatever was thrown by one fixed message.
\<close>

definition getClothingSuggestions_request :: "string \<Rightarrow> Language \<Rightarrow> request" where
  "getClothingSuggestions_request prompt lang =
     \<lparr>model = ''gemini-2.5-pro'',
      contents = Prompt prompt,
      systemInstruction =
        Some (if lang = Ru then StylistInstructionRu else StylistInstructionEn),
      responseMimeType = Some ''application/json'',
      responseSchema = True,
      responseModalities = []\<rparr>"

definition getClothingSuggestions ::
  "env \<Rightarrow> nat \<Rightarrow> string \<Rightarrow> Language \<Rightarrow> request list \<times> (exn + ClothingSuggestion list)" where
  "getClothingSuggestions e k prompt lang =
     (if \<not> has_API_KEY e then ([], Inl (Error ''API_KEY environment variable is not set.''))
      else
        ([getClothingSuggestions_request prompt lang],
         (case (case generateContent e k (getClothingSuggestions_request prompt lang) of
                  Inl x \<Rightarrow> Inl x
                | Inr r \<Rightarrow>
                    (case rtext r of
                       NotJSON \<Rightarrow> Inl (Error ''SyntaxError'')
                     | NoSuggestions \<Rightarrow>
                         Inl (Error ''AI response did not contain valid suggestions.'')
                     | Suggestions xs \<Rightarrow> Inr xs)) of
            Inl x \<Rightarrow>
              Inl (Error ''Failed to get clothing suggestions. Please check the console.'')
          | Inr xs \<Rightarrow> Inr xs)))"

definition generateClothingImage_request :: "string \<Rightarrow> request" where
  "generateClothingImage_request description' =
     \<lparr>model = ''gemini-2.5-flash-image'',
      contents = Parts [TextPart
        (''Generate a high-resolution, photorealistic image of a single clothing item: \"''
         @ description'
         @ ''\". The item should be displayed flat or on a mannequin against a pure white background. There should be no shadows or other objects in the image. This image is for a virtual try-on application.'')],
      systemInstruction = None,
      responseMimeType = None,
      responseSchema = False,
      responseModalities = [IMAGE]\<rparr>"

definition generateClothingImage ::
  "env \<Rightarrow> nat \<Rightarrow> string \<Rightarrow> request list \<times> (exn + ImageResult)" where
  "generateClothingImage e k description' =
     (if \<not> has_API_KEY e then ([], Inl (Error ''API_KEY environment variable is not set.''))
      else
        ([generateClothingImage_request description'],
         (case (case generateContent e k (generateClothingImage_request description') of
                  Inl x \<Rightarrow> Inl x
                | Inr r \<Rightarrow>
                    (case find_imagePart r of
                       Some img \<Rightarrow> Inr img
                     | None \<Rightarrow>
                         (case blockReason r of
                            Some reason \<Rightarrow>
                              if reason \<noteq> [] then
                                Inl (Error (''Clothing image generation was blocked due to: ''
                                            @ reason))
                              else Inl (Error ''No image was generated for the clothing item.'')
                          | None \<Rightarrow>
                              Inl (Error ''No image was generated for the clothing item.'')))) of
            Inl x \<Rightarrow>
              Inl (Error ''Failed to generate clothing image. Please check the console.'')
          | Inr img \<Rightarrow> Inr img)))"

definition removeBackground_request :: "string \<Rightarrow> string \<Rightarrow> request" where
  "removeBackground_request imageBase64 imageMimeType =
     \<lparr>model = ''gemini-2.5-flash-image'',
      contents = Parts
        [fileToGenerativePart imageBase64 imageMimeType,
         TextPart ''You are an expert image editor. Your task is to accurately remove the background from the provided image, leaving only the main person. The output image must have a transparent background.''],
      systemInstruction = None,
      responseMimeType = None,
      responseSchema = False,
      responseModalities = [IMAGE]\<rparr>"

definition removeBackground ::
  "env \<Rightarrow> nat \<Rightarrow> string \<Rightarrow> string \<Rightarrow> request list \<times> (exn + ImageResult)" where
  "removeBackground e k imageBase64 imageMimeType =
     (if \<not> has_API_KEY e then ([], Inl (Error ''API_KEY environment variable is not set.''))
      else
        ([removeBackground_request imageBase64 imageMimeType],
         (case (case generateContent e k (removeBackground_request imageBase64 imageMimeType) of
                  Inl x \<Rightarrow> Inl x
                | Inr r \<Rightarrow>
                    (case find_imagePart r of
                       Some img \<Rightarrow> Inr img
                     | None \<Rightarrow>
                         (case blockReason r of
                            Some reason \<Rightarrow>
                              if reason \<noteq> [] then
                                Inl (Error (''Background removal was blocked due to: '' @ reason))
                              else
                                Inl (Error ''No image was generated during background removal.'')
                          | None \<Rightarrow>
                              Inl (Error ''No image was generated during background removal.'')))) of
            Inl x \<Rightarrow>
              Inl (Error ''Failed to remove background. Please check the console for more details.'')
          | Inr img \<Rightarrow> Inr img)))"

definition promptText :: "StyleTheme \<Rightarrow> string" where
  "promptText styleTheme' =
     (case styleTheme' of
        MagazineCover \<Rightarrow> ''You are a creative director for a high-fashion magazine. Your task is to create a dramatic and stylish magazine cover shot. Take the person from the first image and dress them in the outfit from the second image. The final image should be composed like a professional magazine cover, with bold lighting and a captivating pose. Preserve the person's face. The background can be stylized to fit the theme. Only output the final generated image.''
      | Artistic \<Rightarrow> ''You are a digital artist. Your task is to reinterpret the virtual try-on as a piece of art. Take the person from the first image and dress them in the outfit from the second image. The final image should be in a stylized, artistic manner (e.g., digital painting, watercolor effect, or graphic art style), while still being recognizable. Preserve the person's face. Only output the final generated image.''
      | Photorealistic \<Rightarrow> ''You are an expert virtual stylist. Your task is to take the person from the first image and dress them in the outfit from the second image. The final image should look realistic, preserving the person's face, body pose, and the original background as much as possible. Only output the final generated image.'')"

definition virtualTryOn_request ::
  "string \<Rightarrow> string \<Rightarrow> string \<Rightarrow> string \<Rightarrow> StyleTheme \<Rightarrow> request" where
  "virtualTryOn_request personImageBase64 personImageMimeType clothingImageBase64
       clothingImageMimeType styleTheme' =
     \<lparr>model = ''gemini-2.5-flash-image'',
      contents = Parts
        [fileToGenerativePart personImageBase64 personImageMimeType,
         fileToGenerativePart clothingImageBase64 clothingImageMimeType,
         TextPart (promptText styleTheme')],
      systemInstruction = None,
      responseMimeType = None,
      responseSchema = False,
      responseModalities = [IMAGE]\<rparr>"

definition virtualTryOn ::
  "env \<Rightarrow> nat \<Rightarrow> string \<Rightarrow> string \<Rightarrow> string \<Rightarrow> string \<Rightarrow> StyleTheme
   \<Rightarrow> request list \<times> (exn + ImageResult)" where
  "virtualTryOn e k personImageBase64 personImageMimeType clothingImageBase64
       clothingImageMimeType styleTheme' =
     (if \<not> has_API_KEY e then ([], Inl (Error ''API_KEY environment variable is not set.''))
      else
        ([virtualTryOn_request personImageBase64 personImageMimeType clothingImageBase64
            clothingImageMimeType styleTheme'],
         (case (case generateContent e k
                       (virtualTryOn_request personImageBase64 personImageMimeType
                          clothingImageBase64 clothingImageMimeType styleTheme') of
                  Inl x \<Rightarrow> Inl x
                | Inr r \<Rightarrow>
                    (case find_imagePart r of
                       Some img \<Rightarrow> Inr img
                     | None \<Rightarrow>
                         (case blockReason r of
                            Some reason \<Rightarrow>
                              if reason \<noteq> [] then
                                Inl (Error (''Image generation was blocked due to: '' @ reason))
                              else Inl (Error ''No image was generated in the response.'')
                          | None \<Rightarrow> Inl (Error ''No image was generated in the response.'')))) of
            Inl x \<Rightarrow>
              Inl (Error ''Failed to generate image. Please check the console for more details.'')
          | Inr img \<Rightarrow> Inr img)))"


section \<open>Local storage\<close>

text \<open>
  Items are strings under string keys.  Access to the storage can be denied altogether
  (\<open>SecurityError\<close>), and a write can be refused (\<open>QuotaExceededError\<close>); which writes
  are refused is left to the storage.
\<close>

record storage =
  items :: "string \<rightharpoonup> string"
  denied :: bool
  refuses :: "string \<Rightarrow> string \<Rightarrow> bool"

definition getItem :: "storage \<Rightarrow> string \<Rightarrow> exn + string option" where
  "getItem st key =
     (if denied st then Inl (DOMException ''SecurityError'') else Inr (items st key))"

definition setItem :: "storage \<Rightarrow> string \<Rightarrow> string \<Rightarrow> exn + storage" where
  "setItem st key v =
     (if denied st then Inl (DOMException ''SecurityError'')
      else if refuses st key v then Inl (DOMException ''QuotaExceededError'')
      else Inr (st\<lparr>items := (items st)(key \<mapsto> v)\<rparr>))"

definition removeItem :: "storage \<Rightarrow> string \<Rightarrow> exn + storage" where
  "removeItem st key =
     (if denied st then Inl (DOMException ''SecurityError'')
      else Inr (st\<lparr>items := (items st)(key := None)\<rparr>))"

text \<open>A string read from the storage is truthy unless it is \<open>null\<close> or empty.\<close>

definition truthy :: "string option \<Rightarrow> bool" where
  "truthy v \<longleftrightarrow> (case v of None \<Rightarrow> False | Some x \<Rightarrow> x \<noteq> [])"

section \<open>The state of the application\<close>

text \<open>A call of a gateway function, with the arguments bound to its parameters.\<close>

datatype gateway_call =
    GetClothingSuggestionsCall string Language
  | GenerateClothingImageCall string
  | RemoveBackgroundCall string string
  | VirtualTryOnCall string string string string StyleTheme

text \<open>
  The React state of \<open>App\<close> with its two hooks, followed by the world around it: the local
  storage, the console, the alerts shown, the gateway calls made and the requests sent to the
  external model, in order.
\<close>

record state =
  personImage :: "UploadedImage option"
  clothingImage :: "UploadedImage option"
  generatedImage :: "(string \<times> string) option"
  isLoading :: bool
  loadingText :: string
  error :: "string option"
  view :: View
  history :: "HistoryItem list"
  removeBgEnabled :: bool
  styleTheme :: StyleTheme
  savedSession :: "SavedSession option"
  stylistPrompt :: string
  customStylistPrompt :: string
  preferredColors :: string
  suggestions :: "ClothingSuggestion list"
  suggestionImages :: "string \<rightharpoonup> SuggestionImage"
  theme :: Theme
  language :: Language
  localStorage :: storage
  console :: "string list"
  alerts :: "string list"
  calls :: "gateway_call list"
  sent :: "request list"

text \<open>The hook \<open>t\<close> of \<open>useLocalization\<close>, without placeholders.\<close>

definition translate :: "env \<Rightarrow> state \<Rightarrow> TranslationKey \<Rightarrow> string" where
  "translate e s key =
     (if translation_table e (language s) key \<noteq> [] then translation_table e (language s) key
      else translation_table e En key)"

text \<open>\<open>e.message || fallback\<close>\<close>

definition message_or :: "exn \<Rightarrow> string \<Rightarrow> string" where
  "message_or x fallback =
     (case message x of Some m \<Rightarrow> if m \<noteq> [] then m else fallback | None \<Rightarrow> fallback)"

definition console_error :: "string \<Rightarrow> state \<Rightarrow> state" where
  "console_error msg s = s\<lparr>console := console s @ [msg]\<rparr>"

text \<open>\<open>URL.createObjectURL\<close> gives a fresh URL of the scheme \<open>blob:\<close>, made of the origin
  of the page and an identifier.\<close>

definition createObjectURL :: "string \<Rightarrow> string \<Rightarrow> string" where
  "createObjectURL origin uuid = ''blob:'' @ origin @ ''/'' @ uuid"

definition theme_name :: "Theme \<Rightarrow> string" where
  "theme_name x = (case x of Light \<Rightarrow> ''light'' | Dark \<Rightarrow> ''dark'' | Sunset \<Rightarrow> ''sunset'')"

definition language_name :: "Language \<Rightarrow> string" where
  "language_name x = (case x of En \<Rightarrow> ''en'' | Ru \<Rightarrow> ''ru'')"

definition styleTheme_name :: "StyleTheme \<Rightarrow> string" where
  "styleTheme_name x =
     (case x of Photorealistic \<Rightarrow> ''Photorealistic'' | MagazineCover \<Rightarrow> ''Magazine Cover''
      | Artistic \<Rightarrow> ''Artistic'')"


section \<open>State initialisers and effects (App.tsx)\<close>

text \<open>
  An operation that touches the local storage returns the exception that escapes it, if
  any: \<open>Inl\<close> for a function with a result, \<open>Some\<close> beside the state it leaves for a
  handler or an effect.  The initialisers of \<open>useState\<close> run before there is a state; they
  take the console log and return it beside their result.  Each returns its default from a
  bare \<open>catch\<close>, which writes nothing to the console.
\<close>

definition init_theme :: "storage \<Rightarrow> string list \<Rightarrow> (exn + string) \<times> string list" where
  "init_theme st log =
     (case getItem st ''trayonTheme'' of
        Inl x \<Rightarrow> (Inr ''light'', log)
      | Inr savedTheme \<Rightarrow>
          (Inr (case savedTheme of None \<Rightarrow> ''light''
                | Some v \<Rightarrow> if v \<noteq> [] then v else ''light''), log))"

definition init_language :: "storage \<Rightarrow> string list \<Rightarrow> (exn + string) \<times> string list" where
  "init_language st log =
     (case getItem st ''trayonLanguage'' of
        Inl x \<Rightarrow> (Inr ''ru'', log)
      | Inr savedLang \<Rightarrow>
          (Inr (case savedLang of None \<Rightarrow> ''ru'' | Some v \<Rightarrow> if v \<noteq> [] then v else ''ru''),
           log))"

definition init_removeBgEnabled ::
  "env \<Rightarrow> storage \<Rightarrow> string list \<Rightarrow> (exn + json) \<times> string list" where
  "init_removeBgEnabled e st log =
     (case getItem st ''trayonRemoveBg'' of
        Inl x \<Rightarrow> (Inr (JBool True), log)
      | Inr saved \<Rightarrow>
          (case saved of
             None \<Rightarrow> (Inr (JBool True), log)
           | Some v \<Rightarrow>
               (case JSON_parse e v of
                  Inl x \<Rightarrow> (Inr (JBool True), log)
                | Inr j \<Rightarrow> (Inr j, log))))"

definition init_styleTheme :: "storage \<Rightarrow> string list \<Rightarrow> (exn + StyleTheme) \<times> string list" where
  "init_styleTheme st log =
     (case getItem st ''trayonStyleTheme'' of
        Inl x \<Rightarrow> (Inr Photorealistic, log)
      | Inr saved \<Rightarrow>
          (Inr (if saved = Some ''Photorealistic'' then Photorealistic
                else if saved = Some ''Magazine Cover'' then MagazineCover
                else if saved = Some ''Artistic'' then Artistic
                else Photorealistic), log))"

text \<open>
  The effect that loads history, saved session and persisted images on the first render.
  A setter that ran before an exception keeps its effect.  A parsed value of another shape
  than the state field is outside the state type; the model leaves the field as it was.
\<close>

definition load_history :: "env \<Rightarrow> state \<Rightarrow> exn option \<times> state" where
  "load_history e s =
     (case getItem (localStorage s) ''trayonHistory'' of
        Inl x \<Rightarrow> (Some x, s)
      | Inr savedHistory \<Rightarrow>
          (case savedHistory of
             None \<Rightarrow> (None, s)
           | Some v \<Rightarrow>
               if v = [] then (None, s)
               else (case JSON_parse e v of
                       Inl x \<Rightarrow> (Some x, s)
                     | Inr (JHistory h) \<Rightarrow> (None, s\<lparr>history := h\<rparr>)
                     | Inr _ \<Rightarrow> (None, s))))"

definition load_savedSession :: "env \<Rightarrow> state \<Rightarrow> exn option \<times> state" where
  "load_savedSession e s =
     (case getItem (localStorage s) ''trayonSavedSession'' of
        Inl x \<Rightarrow> (Some x, s)
      | Inr savedSessionData \<Rightarrow>
          (case savedSessionData of
             None \<Rightarrow> (None, s)
           | Some v \<Rightarrow>
               if v = [] then (None, s)
               else (case JSON_parse e v of
                       Inl x \<Rightarrow> (Some x, s)
                     | Inr (JSession x) \<Rightarrow> (None, s\<lparr>savedSession := Some x\<rparr>)
                     | Inr _ \<Rightarrow> (None, s))))"

definition load_images :: "state \<Rightarrow> exn option \<times> state" where
  "load_images s =
     (case getItem (localStorage s) ''trayonPersonImage'' of
        Inl x \<Rightarrow> (Some x, s)
      | Inr persistedPerson \<Rightarrow>
          (case getItem (localStorage s) ''trayonClothingImage'' of
             Inl x \<Rightarrow> (Some x, s)
           | Inr persistedClothing \<Rightarrow>
               (case (case persistedPerson of
                        None \<Rightarrow> Inr s
                      | Some u \<Rightarrow>
                          if u = [] then Inr s
                          else (case dataURLtoFile u ''person.png'' of
                                  Inl x \<Rightarrow> Inl x
                                | Inr None \<Rightarrow> Inr s
                                | Inr (Some f) \<Rightarrow>
                                    Inr (s\<lparr>personImage := Some \<lparr>file = f, previewUrl = u\<rparr>\<rparr>))) of
                  Inl x \<Rightarrow> (Some x, s)
                | Inr s1 \<Rightarrow>
                    (case persistedClothing of
                       None \<Rightarrow> (None, s1)
                     | Some u \<Rightarrow>
                         if u = [] then (None, s1)
                         else (case dataURLtoFile u ''clothing.png'' of
                                 Inl x \<Rightarrow> (Some x, s1)
                               | Inr None \<Rightarrow> (None, s1)
                               | Inr (Some f) \<Rightarrow>
                                   (None, s1\<lparr>clothingImage :=
                                                Some \<lparr>file = f, previewUrl = u\<rparr>\<rparr>))))))"

definition load_effect :: "env \<Rightarrow> state \<Rightarrow> exn option \<times> state" where
  "load_effect e s =
     (case (case load_history e s of
              (Some x, s1) \<Rightarrow> (Some x, s1)
            | (None, s1) \<Rightarrow>
                (case load_savedSession e s1 of
                   (Some x, s2) \<Rightarrow> (Some x, s2)
                 | (None, s2) \<Rightarrow> load_images s2)) of
        (Some x, s3) \<Rightarrow> (None, console_error ''Failed to load data from localStorage'' s3)
      | (None, s3) \<Rightarrow> (None, s3))"

text \<open>The effects that persist a piece of state whenever it changes.\<close>

definition persist_theme :: "state \<Rightarrow> exn option \<times> state" where
  "persist_theme s =
     (case setItem (localStorage s) ''trayonTheme'' (theme_name (theme s)) of
        Inl x \<Rightarrow> (None, console_error ''Failed to save theme'' s)
      | Inr st \<Rightarrow> (None, s\<lparr>localStorage := st\<rparr>))"

definition persist_language :: "state \<Rightarrow> exn option \<times> state" where
  "persist_language s =
     (case setItem (localStorage s) ''trayonLanguage'' (language_name (language s)) of
        Inl x \<Rightarrow> (None, console_error ''Failed to save language'' s)
      | Inr st \<Rightarrow> (None, s\<lparr>localStorage := st\<rparr>))"

definition persist_history :: "env \<Rightarrow> state \<Rightarrow> exn option \<times> state" where
  "persist_history e s =
     (case setItem (localStorage s) ''trayonHistory'' (JSON_stringify e (JHistory (history s))) of
        Inl x \<Rightarrow> (None, console_error ''Failed to save history'' s)
      | Inr st \<Rightarrow> (None, s\<lparr>localStorage := st\<rparr>))"

definition persist_removeBgEnabled :: "env \<Rightarrow> state \<Rightarrow> exn option \<times> state" where
  "persist_removeBgEnabled e s =
     (case setItem (localStorage s) ''trayonRemoveBg''
             (JSON_stringify e (JBool (removeBgEnabled s))) of
        Inl x \<Rightarrow> (None, console_error ''Failed to save removeBg setting'' s)
      | Inr st \<Rightarrow> (None, s\<lparr>localStorage := st\<rparr>))"

definition persist_styleTheme :: "state \<Rightarrow> exn option \<times> state" where
  "persist_styleTheme s =
     (case setItem (localStorage s) ''trayonStyleTheme'' (styleTheme_name (styleTheme s)) of
        Inl x \<Rightarrow> (None, console_error ''Failed to save style theme'' s)
      | Inr st \<Rightarrow> (None, s\<lparr>localStorage := st\<rparr>))"

definition persist_personImage :: "state \<Rightarrow> exn option \<times> state" where
  "persist_personImage s =
     (case (case personImage s of
              Some img \<Rightarrow> setItem (localStorage s) ''trayonPersonImage'' (previewUrl img)
            | None \<Rightarrow> removeItem (localStorage s) ''trayonPersonImage'') of
        Inl x \<Rightarrow> (None, console_error ''Failed to save person image'' s)
      | Inr st \<Rightarrow> (None, s\<lparr>localStorage := st\<rparr>))"

definition persist_clothingImage :: "state \<Rightarrow> exn option \<times> state" where
  "persist_clothingImage s =
     (case (case clothingImage s of
              Some img \<Rightarrow> setItem (localStorage s) ''trayonClothingImage'' (previewUrl img)
            | None \<Rightarrow> removeItem (localStorage s) ''trayonClothingImage'') of
        Inl x \<Rightarrow> (None, console_error ''Failed to save clothing image'' s)
      | Inr st \<Rightarrow> (None, s\<lparr>localStorage := st\<rparr>))"

section \<open>Handlers (App.tsx)\<close>

datatype image_slot = PersonSlot | ClothingSlot

text \<open>\<open>handleImageChange(setter)(file)\<close>; \<open>objectURL\<close> is what \<open>URL.createObjectURL(file)\<close>
  returns.\<close>

definition handleImageChange ::
  "env \<Rightarrow> image_slot \<Rightarrow> File \<Rightarrow> string \<Rightarrow> state \<Rightarrow> state" where
  "handleImageChange e setter f objectURL s =
     (if \<not> prefix ''image/'' (ftype f) then s\<lparr>error := Some (translate e s errorInvalidImage)\<rparr>
      else (case setter of
              PersonSlot \<Rightarrow>
                s\<lparr>personImage := Some \<lparr>file = f, previewUrl = objectURL\<rparr>, error := None\<rparr>
            | ClothingSlot \<Rightarrow>
                s\<lparr>clothingImage := Some \<lparr>file = f, previewUrl = objectURL\<rparr>, error := None\<rparr>))"

text \<open>
  The \<open>try\<close> block of \<open>handleTryOn\<close>: the exception that leaves it, if any, and the state
  with every setter that ran.  The reply to a request is the one the external model gives
  to the request of that number.
\<close>

definition tryOn_body ::
  "env \<Rightarrow> UploadedImage \<Rightarrow> UploadedImage \<Rightarrow> state \<Rightarrow> exn option \<times> state" where
  "tryOn_body e p c s0 =
     (let s1 = s0\<lparr>loadingText := translate e s0 magicMessage\<rparr> in
      case fileToBase64 (file p) of
        Inl x \<Rightarrow> (Some x, s1)
      | Inr personBase64 \<Rightarrow>
          (case (if removeBgEnabled s1 then
                   (let s2 = s1\<lparr>loadingText := translate e s0 removingBackground,
                                 calls := calls s1 @
                                   [RemoveBackgroundCall personBase64 (ftype (file p))]\<rparr>;
                        (reqs, bgRemoved) =
                          removeBackground e (length (sent s2)) personBase64 (ftype (file p));
                        s3 = s2\<lparr>sent := sent s2 @ reqs\<rparr>
                    in case bgRemoved of
                         Inl x \<Rightarrow> Inl (x, s3)
                       | Inr img \<Rightarrow> Inr (data img, mimeType img, s3))
                 else Inr (personBase64, ftype (file p), s1)) of
             Inl (x, s3) \<Rightarrow> (Some x, s3)
           | Inr (personBase64', personMimeType, s3) \<Rightarrow>
               (let s4 = s3\<lparr>loadingText := translate e s0 generatingLook\<rparr> in
                case fileToBase64 (file c) of
                  Inl x \<Rightarrow> (Some x, s4)
                | Inr clothingBase64 \<Rightarrow>
                    (let s5 = s4\<lparr>calls := calls s4 @
                                   [VirtualTryOnCall personBase64' personMimeType clothingBase64
                                      (ftype (file c)) (styleTheme s0)]\<rparr>;
                         (reqs, res) =
                           virtualTryOn e (length (sent s5)) personBase64' personMimeType
                             clothingBase64 (ftype (file c)) (styleTheme s0);
                         s6 = s5\<lparr>sent := sent s5 @ reqs\<rparr>
                     in case res of
                          Inl x \<Rightarrow> (Some x, s6)
                        | Inr img \<Rightarrow>
                            (let resultUrl = data_url (mimeType img) (data img) in
                             (None,
                              s6\<lparr>generatedImage := Some (resultUrl, mimeType img),
                                  history :=
                                    \<lparr>person = previewUrl p, clothing = previewUrl c,
                                       result = resultUrl\<rparr> # history s6,
                                  view := Result\<rparr>))))))"

definition handleTryOn :: "env \<Rightarrow> state \<Rightarrow> state" where
  "handleTryOn e s =
     (case (personImage s, clothingImage s) of
        (Some p, Some c) \<Rightarrow>
          (let s0 = s\<lparr>isLoading := True, error := None, generatedImage := None,
                       view := Loading\<rparr>;
               s7 = (case tryOn_body e p c s0 of
                       (None, s') \<Rightarrow> s'
                     | (Some x, s') \<Rightarrow>
                         s'\<lparr>error := Some (message_or x (translate e s errorUnexpected)),
                            view := TryOn\<rparr>)
           in s7\<lparr>isLoading := False, loadingText := []\<rparr>)
      | _ \<Rightarrow> s\<lparr>error := Some (translate e s errorNeedBothImagesUpload)\<rparr>)"


text \<open>\<open>name.replace(/\s+/g, '-')\<close>: every run of white space becomes one hyphen.\<close>

definition is_space :: "char \<Rightarrow> bool" where
  "is_space c \<longleftrightarrow>
     c = CHR 0x09 \<or> c = CHR 0x0A \<or> c = CHR 0x0B \<or> c = CHR 0x0C \<or> c = CHR 0x0D
     \<or> c = CHR 0x20 \<or> c = CHR 0xA0"

fun replace_spaces :: "bool \<Rightarrow> string \<Rightarrow> string" where
  "replace_spaces in_run [] = []"
| "replace_spaces in_run (c # cs) =
     (if is_space c then (if in_run then replace_spaces True cs
                          else CHR ''-'' # replace_spaces True cs)
      else c # replace_spaces False cs)"

text \<open>
  The suggestion batch of \<open>handleGetSuggestions\<close>.  The loop over the results marks each
  suggestion as loading and starts its image generation, one request after the other; the
  callbacks of the promises run later, in the order in which the generations resolve.
\<close>

fun start_generations ::
  "env \<Rightarrow> ClothingSuggestion list \<Rightarrow> state \<Rightarrow> (exn + ImageResult) list \<times> state" where
  "start_generations e [] s = ([], s)"
| "start_generations e (suggestion # rest) s =
     (let s1 = s\<lparr>suggestionImages := (suggestionImages s)(name suggestion \<mapsto> ImageLoading),
                   calls := calls s @ [GenerateClothingImageCall (description suggestion)]\<rparr>;
          (reqs, outcome) =
            generateClothingImage e (length (sent s1)) (description suggestion);
          s2 = s1\<lparr>sent := sent s1 @ reqs\<rparr>;
          (outcomes, s3) = start_generations e rest s2
      in (outcome # outcomes, s3))"

text \<open>
  One promise settles: the \<open>then\<close> callback stores the payload when \<open>dataURLtoFile\<close> gives a
  file and does nothing when it gives \<open>null\<close>; the \<open>catch\<close> callback, which also receives
  what the \<open>then\<close> callback throws, logs and deletes the entry.
\<close>

definition settle :: "ClothingSuggestion \<Rightarrow> exn + ImageResult \<Rightarrow> state \<Rightarrow> state" where
  "settle suggestion outcome s =
     (case (case outcome of
              Inl x \<Rightarrow> Inl x
            | Inr imageResult \<Rightarrow>
                (let imageUrl = data_url (mimeType imageResult) (data imageResult) in
                 case dataURLtoFile imageUrl (replace_spaces False (name suggestion) @ ''.png'') of
                   Inl x \<Rightarrow> Inl x
                 | Inr None \<Rightarrow> Inr s
                 | Inr (Some imageFile) \<Rightarrow>
                     Inr (s\<lparr>suggestionImages := (suggestionImages s)
                            (name suggestion \<mapsto>
                               ImageReady imageUrl (mimeType imageResult) imageFile)\<rparr>))) of
        Inl x \<Rightarrow>
          (console_error (''Failed to generate image for '' @ name suggestion) s)
            \<lparr>suggestionImages := (suggestionImages s)(name suggestion := None)\<rparr>
      | Inr s' \<Rightarrow> s')"

fun settle_all ::
  "nat list \<Rightarrow> ClothingSuggestion list \<Rightarrow> (exn + ImageResult) list \<Rightarrow> state \<Rightarrow> state" where
  "settle_all [] results outcomes s = s"
| "settle_all (i # order) results outcomes s =
     settle_all order results outcomes
       (if i < length results \<and> i < length outcomes
        then settle (results ! i) (outcomes ! i) s else s)"

text \<open>
  \<open>handleGetSuggestions\<close>; \<open>order\<close> lists the positions of the suggestions in the order in
  which their generations resolve.  The call site passes \<open>preferredColors\<close> as a third
  argument to \<open>getClothingSuggestions\<close> and \<open>styleTheme\<close> as a second argument to
  \<open>generateClothingImage\<close>; the functions declare two parameters and one, so the extra
  argument is bound to nothing.  The timer that shows the spinner after 200 ms leaves no
  trace once the \<open>finally\<close> block has run.
\<close>

definition handleGetSuggestions :: "env \<Rightarrow> nat list \<Rightarrow> state \<Rightarrow> state" where
  "handleGetSuggestions e order s =
     (let finalPrompt =
            (if stylistPrompt s = ''custom'' then customStylistPrompt s else stylistPrompt s)
      in if finalPrompt = [] then s\<lparr>error := Some (translate e s errorSelectStyle)\<rparr>
         else
           (let s1 = s\<lparr>loadingText := translate e s gettingSuggestions, error := None,
                         suggestions := [], suggestionImages := Map.empty\<rparr>;
                s2 = s1\<lparr>calls := calls s1 @ [GetClothingSuggestionsCall finalPrompt (language s)]\<rparr>;
                (reqs, fetched) =
                  getClothingSuggestions e (length (sent s2)) finalPrompt (language s);
                s3 = s2\<lparr>sent := sent s2 @ reqs\<rparr>;
                s4 = (case fetched of
                        Inl x \<Rightarrow>
                          s3\<lparr>error := Some (message_or x (translate e s errorUnexpected))\<rparr>
                      | Inr results \<Rightarrow>
                          (let s5 = s3\<lparr>suggestions := results,
                                        loadingText := translate e s generatingImageGallery\<rparr>;
                               (outcomes, s6) = start_generations e results s5
                           in settle_all order results outcomes s6))
            in s4\<lparr>isLoading := False, loadingText := []\<rparr>))"

definition handleUseSuggestionImage :: "File \<Rightarrow> string \<Rightarrow> state \<Rightarrow> state" where
  "handleUseSuggestionImage f objectURL s =
     s\<lparr>clothingImage := Some \<lparr>file = f, previewUrl = objectURL\<rparr>, error := None\<rparr>"

definition handleSaveSession :: "env \<Rightarrow> state \<Rightarrow> exn option \<times> state" where
  "handleSaveSession e s =
     (case (personImage s, clothingImage s) of
        (Some p, Some c) \<Rightarrow>
          (let session = \<lparr>session_personImage = previewUrl p,
                           session_clothingImage = previewUrl c,
                           session_removeBgEnabled = removeBgEnabled s,
                           session_styleTheme = styleTheme s\<rparr>
           in case setItem (localStorage s) ''trayonSavedSession''
                     (JSON_stringify e (JSession session)) of
                Inl x \<Rightarrow> (None, s\<lparr>error := Some (translate e s errorSaveSession)\<rparr>)
              | Inr st \<Rightarrow>
                  (None, s\<lparr>localStorage := st, savedSession := Some session,
                            alerts := alerts s @ [translate e s sessionSaved]\<rparr>))
      | _ \<Rightarrow> (None, s\<lparr>error := Some (translate e s errorNeedBothImages)\<rparr>))"

text \<open>\<open>handleLoadSession\<close> calls \<open>dataURLtoFile\<close> twice before any setter, outside any
  \<open>try\<close>.\<close>

definition handleLoadSession :: "state \<Rightarrow> exn option \<times> state" where
  "handleLoadSession s =
     (case savedSession s of
        None \<Rightarrow> (None, s)
      | Some saved \<Rightarrow>
          (case dataURLtoFile (session_personImage saved) ''person.png'' of
             Inl x \<Rightarrow> (Some x, s)
           | Inr personFile \<Rightarrow>
               (case dataURLtoFile (session_clothingImage saved) ''clothing.png'' of
                  Inl x \<Rightarrow> (Some x, s)
                | Inr clothingFile \<Rightarrow>
                    (let s1 = (case personFile of
                                 Some f \<Rightarrow>
                                   s\<lparr>personImage :=
                                       Some \<lparr>file = f, previewUrl = session_personImage saved\<rparr>\<rparr>
                               | None \<Rightarrow> s);
                         s2 = (case clothingFile of
                                 Some f \<Rightarrow>
                                   s1\<lparr>clothingImage :=
                                        Some \<lparr>file = f,
                                              previewUrl = session_clothingImage saved\<rparr>\<rparr>
                               | None \<Rightarrow> s1)
                     in (None,
                         s2\<lparr>removeBgEnabled := session_removeBgEnabled saved,
                             styleTheme := session_styleTheme saved,
                             view := TryOn\<rparr>)))))"

text \<open>\<open>handleStartNew\<close> removes the two persisted previews outside any \<open>try\<close>, after its
  setters.\<close>

definition handleStartNew :: "state \<Rightarrow> exn option \<times> state" where
  "handleStartNew s =
     (let s1 = s\<lparr>personImage := None, clothingImage := None, generatedImage := None,
                   error := None, styleTheme := Photorealistic, removeBgEnabled := True,
                   stylistPrompt := [], customStylistPrompt := [], preferredColors := [],
                   suggestions := [], suggestionImages := Map.empty\<rparr>
      in case removeItem (localStorage s1) ''trayonPersonImage'' of
           Inl x \<Rightarrow> (Some x, s1)
         | Inr st1 \<Rightarrow>
             (case removeItem st1 ''trayonClothingImage'' of
                Inl x \<Rightarrow> (Some x, s1\<lparr>localStorage := st1\<rparr>)
              | Inr st2 \<Rightarrow> (None, s1\<lparr>localStorage := st2\<rparr>)))"

text \<open>The button of the start menu: \<open>() => { handleStartNew(); setView('tryOn'); }\<close>\<close>

definition onStart :: "state \<Rightarrow> exn option \<times> state" where
  "onStart s =
     (case handleStartNew s of
        (Some x, s1) \<Rightarrow> (Some x, s1)
      | (None, s1) \<Rightarrow> (None, s1\<lparr>view := TryOn\<rparr>))"

text \<open>\<open>prev.filter((_, index) => index !== indexToDelete)\<close>, and the handler around it;
  \<open>confirmed\<close> is the answer to \<open>window.confirm\<close>.\<close>

definition filter_index :: "(nat \<Rightarrow> bool) \<Rightarrow> 'a list \<Rightarrow> 'a list" where
  "filter_index keep xs = map snd (filter (\<lambda>(index, x). keep index) (enumerate 0 xs))"

definition handleDeleteHistoryItem :: "bool \<Rightarrow> nat \<Rightarrow> state \<Rightarrow> state" where
  "handleDeleteHistoryItem confirmed indexToDelete s =
     (if confirmed
      then s\<lparr>history := filter_index (\<lambda>index. index \<noteq> indexToDelete) (history s)\<rparr>
      else s)"

section \<open>Sample values\<close>

text \<open>A storage that holds nothing and accepts everything, and the state of a first
  render over it with nothing uploaded.\<close>

definition empty_storage :: storage where
  "empty_storage = \<lparr>items = Map.empty, denied = False, refuses = (\<lambda>k v. False)\<rparr>"

definition fresh_state :: state where
  "fresh_state =
     \<lparr>personImage = None, clothingImage = None, generatedImage = None, isLoading = False,
      loadingText = [], error = None, view = Start, history = [], removeBgEnabled = True,
      styleTheme = Photorealistic, savedSession = None, stylistPrompt = [],
      customStylistPrompt = [], preferredColors = [], suggestions = [],
      suggestionImages = Map.empty, theme = Light, language = Ru,
      localStorage = empty_storage, console = [], alerts = [], calls = [], sent = []\<rparr>"

definition png_file :: File where
  "png_file = new_File [137, 80, 78, 71] ''me.png'' ''image/png''"

definition svg_file :: File where
  "svg_file = new_File [60, 115, 118, 103, 47, 62] ''look.svg'' ''image/svg+xml;charset=utf-8''"

definition jpg_file :: File where
  "jpg_file = new_File [255, 216, 255] ''coat.jpg'' ''image/jpeg''"

text \<open>An external model that answers the first request with one image and every later
  request with another, a table with one text for every key, and a JSON codec that is never
  asked.\<close>

definition image_reply :: "string \<Rightarrow> string \<Rightarrow> exn + response" where
  "image_reply d m = Inr \<lparr>candidates = [[InlineData d m]], blockReason = None, rtext = NotJSON\<rparr>"

definition studio_env :: env where
  "studio_env =
     \<lparr>API_KEY = Some ''secret'',
      generateContent =
        (\<lambda>k r. if k = 0 then image_reply ''QUJD'' ''image/webp'' else image_reply ''REVG'' ''image/png''),
      translation_table = (\<lambda>l k. ''message''),
      JSON_stringify = (\<lambda>j. ''{}''),
      JSON_parse = (\<lambda>x. Inl (Error ''SyntaxError''))\<rparr>"

definition no_key_env :: env where
  "no_key_env = studio_env\<lparr>API_KEY := None\<rparr>"

definition blocked_env :: env where
  "blocked_env =
     studio_env
       \<lparr>generateContent :=
          (\<lambda>k r. if k = 0 then image_reply ''QUJD'' ''image/webp''
                 else Inr \<lparr>candidates = [], blockReason = Some ''SAFETY'', rtext = NotJSON\<rparr>)\<rparr>"

definition ready_state :: state where
  "ready_state =
     fresh_state
       \<lparr>personImage := Some \<lparr>file = png_file,
                                previewUrl = createObjectURL ''http://localhost:3000'' ''p1''\<rparr>,
        clothingImage := Some \<lparr>file = jpg_file,
                                  previewUrl = createObjectURL ''http://localhost:3000'' ''c1''\<rparr>,
        view := TryOn\<rparr>"

text \<open>An empty image file, which a file reader reads and \<open>fileToBase64\<close> rejects; a file
  that can no longer be read; and a translation table without texts.\<close>

definition blank_file :: File where
  "blank_file = new_File [] ''blank.png'' ''image/png''"


definition silent_env :: env where
  "silent_env = studio_env\<lparr>translation_table := (\<lambda>l k. [])\<rparr>"

definition blank_state :: state where
  "blank_state =
     ready_state
       \<lparr>clothingImage := Some \<lparr>file = blank_file,
                                  previewUrl = createObjectURL ''http://localhost:3000'' ''c2''\<rparr>\<rparr>"


text \<open>
  For stating what a suggestion batch ends with: the outcomes of the generations started
  from request number \<open>k\<close> on, and the entry that a settled generation leaves where
  \<open>old\<close> was.
\<close>

fun outcomes_from :: "env \<Rightarrow> nat \<Rightarrow> ClothingSuggestion list \<Rightarrow> (exn + ImageResult) list" where
  "outcomes_from e k [] = []"
| "outcomes_from e k (suggestion # rest) =
     snd (generateClothingImage e k (description suggestion)) # outcomes_from e (Suc k) rest"

definition settled_entry ::
  "ClothingSuggestion \<Rightarrow> exn + ImageResult \<Rightarrow> SuggestionImage option \<Rightarrow> SuggestionImage option" where
  "settled_entry suggestion outcome old =
     (case outcome of
        Inl x \<Rightarrow> None
      | Inr imageResult \<Rightarrow>
          (case dataURLtoFile (data_url (mimeType imageResult) (data imageResult))
                  (replace_spaces False (name suggestion) @ ''.png'') of
             Inl x \<Rightarrow> None
           | Inr None \<Rightarrow> old
           | Inr (Some imageFile) \<Rightarrow>
               Some (ImageReady (data_url (mimeType imageResult) (data imageResult))
                       (mimeType imageResult) imageFile)))"

definition three_suggestions :: "ClothingSuggestion list" where
  "three_suggestions =
     [\<lparr>name = ''Linen shirt'', description = ''a white linen shirt''\<rparr>,
      \<lparr>name = ''Denim jacket'', description = ''a faded denim jacket''\<rparr>,
      \<lparr>name = ''Wool coat'', description = ''a grey wool coat''\<rparr>]"

definition suggestions_reply :: "exn + response" where
  "suggestions_reply =
     Inr \<lparr>candidates = [], blockReason = None, rtext = Suggestions three_suggestions\<rparr>"

text \<open>Three external models: each answers the first request with the three suggestions
  and lets the second generation fail; the first generation gives a proper image, base64
  text that is none, or an image with a comma in its MIME type.\<close>

definition stylist_env :: env where
  "stylist_env =
     studio_env
       \<lparr>generateContent :=
          (\<lambda>k r. if k = 0 then suggestions_reply
                 else if k = 1 then image_reply ''QUJD'' ''image/png''
                 else if k = 2 then Inl (Error ''network'')
                 else image_reply ''REVG'' ''image/png'')\<rparr>"

definition garbled_env :: env where
  "garbled_env =
     studio_env
       \<lparr>generateContent :=
          (\<lambda>k r. if k = 0 then suggestions_reply
                 else if k = 1 then image_reply ''!!!!'' ''image/png''
                 else if k = 2 then Inl (Error ''network'')
                 else image_reply ''REVG'' ''image/png'')\<rparr>"

definition odd_type_env :: env where
  "odd_type_env =
     studio_env
       \<lparr>generateContent :=
          (\<lambda>k r. if k = 0 then suggestions_reply
                 else if k = 1 then image_reply ''QUJD'' ''image/png,x''
                 else if k = 2 then Inl (Error ''network'')
                 else image_reply ''REVG'' ''image/png'')\<rparr>"

definition asking_state :: "string \<Rightarrow> state" where
  "asking_state colors =
     fresh_state\<lparr>stylistPrompt := ''casual'', preferredColors := colors, language := En,
                  view := TryOn\<rparr>"

text \<open>An external model that gives two suggestions of one name; the generation for the
  first gives an image with a comma in its MIME type, the generation for the second fails.\<close>

definition twin_suggestions :: "ClothingSuggestion list" where
  "twin_suggestions =
     [\<lparr>name = ''Linen shirt'', description = ''a white linen shirt''\<rparr>,
      \<lparr>name = ''Linen shirt'', description = ''a cream linen shirt''\<rparr>]"

definition twin_env :: env where
  "twin_env =
     studio_env
       \<lparr>generateContent :=
          (\<lambda>k r. if k = 0
                 then Inr \<lparr>candidates = [], blockReason = None,
                           rtext = Suggestions twin_suggestions\<rparr>
                 else if k = 1 then image_reply ''QUJD'' ''image/png,x''
                 else Inl (Error ''network''))\<rparr>"

text \<open>A storage that denies every access, one that refuses every write, and the state after
  two uploads with each of them.\<close>

definition locked_storage :: storage where
  "locked_storage = empty_storage\<lparr>denied := True\<rparr>"

definition full_storage :: storage where
  "full_storage = empty_storage\<lparr>refuses := (\<lambda>k v. True)\<rparr>"

definition locked_state :: state where
  "locked_state = ready_state\<lparr>localStorage := locked_storage\<rparr>"

definition full_state :: state where
  "full_state = ready_state\<lparr>localStorage := full_storage\<rparr>"

definition three_items :: "HistoryItem list" where
  "three_items =
     [\<lparr>person = ''p0'', clothing = ''c0'', result = ''r0''\<rparr>,
      \<lparr>person = ''p1'', clothing = ''c1'', result = ''r1''\<rparr>,
      \<lparr>person = ''p2'', clothing = ''c2'', result = ''r2''\<rparr>]"

section \<open>Base64: decoding an encoding\<close>

lemma of_char_b64_char:
  "i < 64 \<Longrightarrow> (of_char (b64_char i) :: nat) =
     (if i < 26 then 65 + i else if i < 52 then 71 + i else if i < 62 then i - 4
      else if i = 62 then 43 else 47)"
  by (simp add: b64_char_def of_char_of)

lemma b64_value_char: "i < 64 \<Longrightarrow> b64_value (b64_char i) = Some i"
  unfolding b64_value_def Let_def by (simp only: of_char_b64_char) (auto split: if_splits)

lemma b64_char_not_pad: "i < 64 \<Longrightarrow> b64_char i \<noteq> CHR ''=''"
proof
  assume "i < 64" and "b64_char i = CHR ''=''"
  then have "(of_char (CHR ''='') :: nat) =
      (if i < 26 then 65 + i else if i < 52 then 71 + i else if i < 62 then i - 4
       else if i = 62 then 43 else 47)"
    using of_char_b64_char[of i] by simp
  then show False by (simp split: if_splits)
qed

lemma b64_char_not_ws: "i < 64 \<Longrightarrow> \<not> is_ascii_whitespace (b64_char i)"
proof
  assume a: "i < 64" and "is_ascii_whitespace (b64_char i)"
  then have "(of_char (b64_char i) :: nat) \<in> {9, 10, 12, 13, 32}"
    by (auto simp: is_ascii_whitespace_def)
  then show False using a by (auto simp add: of_char_b64_char split: if_splits)
qed

lemma b64_char_not_comma: "i < 64 \<Longrightarrow> b64_char i \<noteq> CHR '',''"
proof
  assume "i < 64" and "b64_char i = CHR '',''"
  then have "(of_char (CHR '','') :: nat) =
      (if i < 26 then 65 + i else if i < 52 then 71 + i else if i < 62 then i - 4
       else if i = 62 then 43 else 47)"
    using of_char_b64_char[of i] by simp
  then show False by (simp split: if_splits)
qed

lemma unat8: "unat (a :: 8 word) < 256"
  using unsigned_less[of a] by simp

lemma div_add_small: "r < k \<Longrightarrow> ((a::nat) * k + r) div k = a"
  by simp

lemma mod_add_small: "r < k \<Longrightarrow> ((a::nat) * k + r) mod k = r"
  by simp

lemma sextet_bound: "sextet n k < 64"
  unfolding sextet_def by (rule mod_less_divisor) simp

lemma sextet0: "sextet n 0 = n mod 64"
  by (simp add: sextet_def)

lemma sextet1: "sextet n 1 = n div 64 mod 64"
  by (simp add: sextet_def)

lemma sextet2: "sextet n 2 = n div 64 div 64 mod 64"
proof -
  have "(64::nat) ^ 2 = 64 * 64" by (simp add: power2_eq_square)
  then show ?thesis by (simp only: sextet_def div_mult2_eq)
qed

lemma sextet3: "sextet n 3 = n div 64 div 64 div 64 mod 64"
proof -
  have "(64::nat) ^ 3 = 64 * 64 * 64" by (simp add: power3_eq_cube)
  then show ?thesis by (simp only: sextet_def div_mult2_eq)
qed

lemma octet0: "octet n 0 = n mod 256"
  by (simp add: octet_def)

lemma octet1: "octet n 1 = n div 256 mod 256"
  by (simp add: octet_def)

lemma octet2: "octet n 2 = n div 256 div 256 mod 256"
proof -
  have "(256::nat) ^ 2 = 256 * 256" by (simp add: power2_eq_square)
  then show ?thesis by (simp only: octet_def div_mult2_eq)
qed

lemma unpack4_sextets:
  assumes "n div 64 div 64 div 64 < 64"
  shows "unpack4 (sextet n 3) (sextet n 2) (sextet n 1) (sextet n 0) = n"
proof -
  have "sextet n 3 = n div 64 div 64 div 64"
    using assms by (simp only: sextet3 mod_less)
  then show ?thesis
    by (simp only: unpack4_def sextet2 sextet1 sextet0 div_mult_mod_eq)
qed

lemma unpack3_sextets:
  assumes "n div 64 div 64 < 64"
  shows "unpack3 (sextet n 2) (sextet n 1) (sextet n 0) = n div 4"
proof -
  have "sextet n 2 = n div 64 div 64"
    using assms by (simp only: sextet2 mod_less)
  then show ?thesis
    by (simp only: unpack3_def sextet1 sextet0 div_mult_mod_eq)
qed

lemma unpack2_sextets:
  assumes "n div 64 < 64"
  shows "unpack2 (sextet n 1) (sextet n 0) = n div 16"
proof -
  have "sextet n 1 = n div 64"
    using assms by (simp only: sextet1 mod_less)
  then show ?thesis
    by (simp only: unpack2_def sextet0 div_mult_mod_eq)
qed


lemma pack3_top: "pack3 a b c div 64 div 64 div 64 < 64"
proof -
  have "pack3 a b c < 64 * (64 * (64 * 64))"
    using unat8[of a] unat8[of b] unat8[of c] unfolding pack3_def by simp
  then show ?thesis by (simp only: less_mult_imp_div_less mult.commute)
qed

lemma pack2_top: "pack2 a b div 64 div 64 < 64"
proof -
  have "pack2 a b < 64 * (64 * 64)"
    using unat8[of a] unat8[of b] unfolding pack2_def by simp
  then show ?thesis by (simp only: less_mult_imp_div_less mult.commute)
qed

lemma pack1_top: "pack1 a div 64 < 64"
proof -
  have "pack1 a < 64 * 64"
    using unat8[of a] unfolding pack1_def by simp
  then show ?thesis by (simp only: less_mult_imp_div_less mult.commute)
qed

lemma octets_pack3:
  "octet (pack3 a b c) 2 = unat a" "octet (pack3 a b c) 1 = unat b"
  "octet (pack3 a b c) 0 = unat c"
  using unat8[of a] unat8[of b] unat8[of c]
  by (simp_all only: octet2 octet1 octet0 pack3_def div_add_small mod_add_small mod_less)

lemma octets_pack2:
  "octet (pack2 a b div 4) 1 = unat a" "octet (pack2 a b div 4) 0 = unat b"
proof -
  have "pack2 a b div 4 = unat a * 256 + unat b"
    unfolding pack2_def by simp
  then show "octet (pack2 a b div 4) 1 = unat a" "octet (pack2 a b div 4) 0 = unat b"
    using unat8[of a] unat8[of b]
    by (simp_all only: octet1 octet0 div_add_small mod_add_small mod_less)
qed

lemma octets_pack1: "octet (pack1 a div 16) 0 = unat a"
proof -
  have "pack1 a div 16 = unat a"
    unfolding pack1_def by simp
  then show ?thesis
    using unat8[of a] by (simp only: octet0 mod_less)
qed

lemma groups_sextets: "b64_groups (sextets bs) = map (\<lambda>b. char_of (unat b)) bs"
proof (induction bs rule: sextets.induct)
  case (1 a b c rest)
  have "b64_groups (sextets (a # b # c # rest)) =
      [char_of (octet (pack3 a b c) 2), char_of (octet (pack3 a b c) 1),
       char_of (octet (pack3 a b c) 0)] @ b64_groups (sextets rest)"
    by (simp only: sextets.simps append_Cons append_Nil b64_groups.simps
        unpack4_sextets[OF pack3_top])
  then show ?case
    by (simp only: octets_pack3 1 list.map append_Cons append_Nil)
next
  case (2 a b)
  have "b64_groups (sextets [a, b]) =
      [char_of (octet (pack2 a b div 4) 1), char_of (octet (pack2 a b div 4) 0)]"
    by (simp only: sextets.simps b64_groups.simps unpack3_sextets[OF pack2_top])
  then show ?case
    by (simp only: octets_pack2 list.map)
next
  case (3 a)
  have "b64_groups (sextets [a]) = [char_of (octet (pack1 a div 16) 0)]"
    by (simp only: sextets.simps b64_groups.simps unpack2_sextets[OF pack1_top])
  then show ?case
    by (simp only: octets_pack1 list.map)
next
  case 4
  then show ?case by simp
qed

lemma sextets_bound: "s \<in> set (sextets bs) \<Longrightarrow> s < 64"
  by (induction bs rule: sextets.induct) (auto simp: sextet_bound)

lemma those_values:
  "(\<And>s. s \<in> set ss \<Longrightarrow> s < 64) \<Longrightarrow> those (map b64_value (map b64_char ss)) = Some ss"
  by (induction ss) (simp_all add: b64_value_char)


lemma padding3: "padding (a # b # c # rest) = padding rest"
proof -
  have "length (a # b # c # rest) = length rest + 3" by simp
  then have "length (a # b # c # rest) mod 3 = length rest mod 3"
    by (simp only: mod_add_self2)
  then show ?thesis by (simp only: padding_def)
qed

lemma padding2: "padding [a, b] = ''=''"
  by (simp add: padding_def)

lemma padding1: "padding [a] = ''==''"
  by (simp add: padding_def numeral_2_eq_2)

lemma padding0: "padding [] = []"
  by (simp add: padding_def)

lemma padding_cases: "padding bs = [] \<or> padding bs = ''='' \<or> padding bs = ''==''"
  by (induction bs rule: sextets.induct) (simp_all only: padding3 padding2 padding1 padding0 simp_thms)

lemma encode_length: "\<exists>k. length (base64_encode bs) = 4 * k"
proof (induction bs rule: sextets.induct)
  case (1 a b c rest)
  then obtain k where "length (base64_encode rest) = 4 * k" by blast
  then have "length (base64_encode (a # b # c # rest)) = 4 * Suc k"
    by (simp add: base64_encode_def padding3)
  then show ?case by blast
next
  case (2 a b)
  have "length (base64_encode [a, b]) = 4 * 1" by (simp add: base64_encode_def padding2)
  then show ?case by blast
next
  case (3 a)
  have "length (base64_encode [a]) = 4 * 1" by (simp add: base64_encode_def padding1)
  then show ?case by blast
next
  case 4
  have "length (base64_encode []) = 4 * 0" by (simp add: base64_encode_def padding0)
  then show ?case by blast
qed

lemma sextets_length: "length (sextets bs) mod 4 \<noteq> 1"
proof (induction bs rule: sextets.induct)
  case (1 a b c rest)
  have "length (sextets (a # b # c # rest)) = length (sextets rest) + 4" by simp
  then have "length (sextets (a # b # c # rest)) mod 4 = length (sextets rest) mod 4"
    by (simp only: mod_add_self2)
  with 1 show ?case by simp
qed simp_all

lemma strip_padding_body:
  assumes body: "\<And>c. c \<in> set body \<Longrightarrow> c \<noteq> CHR ''=''"
    and pad: "pad = [] \<or> pad = ''='' \<or> pad = ''==''"
    and len: "length (body @ pad) mod 4 = 0"
  shows "strip_padding (body @ pad) = body"
proof -
  consider (none) "pad = []" | (one) "pad = ''=''" | (two) "pad = ''==''"
    using pad by blast
  then show ?thesis
  proof cases
    case none
    show ?thesis
    proof (cases "rev body")
      case Nil
      with none show ?thesis by (simp add: strip_padding_def)
    next
      case (Cons p r)
      then have "p \<in> set body" by (metis list.set_intros(1) set_rev)
      then have "p \<noteq> CHR ''=''" by (rule body)
      with none Cons show ?thesis by (simp add: strip_padding_def split: list.splits)
    qed
  next
    case one
    show ?thesis
    proof (cases "rev body")
      case Nil
      with one len show ?thesis by simp
    next
      case (Cons q r)
      then have "q \<in> set body" by (metis list.set_intros(1) set_rev)
      then have "q \<noteq> CHR ''=''" by (rule body)
      moreover have "rev (q # r) = body" using Cons by (metis rev_rev_ident)
      ultimately show ?thesis using one len by (simp add: strip_padding_def Cons)
    qed
  next
    case two
    then show ?thesis using len by (simp add: strip_padding_def)
  qed
qed

lemma atob_encode: "atob (base64_encode bs) = Inr (map (\<lambda>b. char_of (unat b)) bs)"
proof -
  let ?body = "map b64_char (sextets bs)"
  have body_pad: "c \<noteq> CHR ''=''" if "c \<in> set ?body" for c
    using that sextets_bound b64_char_not_pad by auto
  have ws: "\<not> is_ascii_whitespace c" if "c \<in> set (base64_encode bs)" for c
  proof -
    from that have "c \<in> set ?body \<or> c \<in> set (padding bs)"
      by (simp add: base64_encode_def)
    then show ?thesis
    proof
      assume "c \<in> set ?body"
      then show ?thesis using sextets_bound b64_char_not_ws by auto
    next
      assume "c \<in> set (padding bs)"
      then have "c = CHR ''=''" by (simp add: padding_def)
      then show ?thesis by (simp add: is_ascii_whitespace_def)
    qed
  qed
  have f: "filter (\<lambda>c. \<not> is_ascii_whitespace c) (base64_encode bs) = base64_encode bs"
    using ws by (simp add: filter_id_conv)
  obtain k where "length (base64_encode bs) = 4 * k" using encode_length by blast
  then have "length (?body @ padding bs) mod 4 = 0" by (simp add: base64_encode_def)
  then have s: "strip_padding (base64_encode bs) = ?body"
    unfolding base64_encode_def using body_pad padding_cases
    by (intro strip_padding_body) auto
  have l: "length ?body mod 4 \<noteq> 1" using sextets_length by simp
  have t: "those (map b64_value ?body) = Some (sextets bs)"
    using sextets_bound by (intro those_values)
  show ?thesis
    unfolding atob_def Let_def f s using l by (simp only: t groups_sextets if_False option.case)
qed

lemma fill_u8_take:
  "n \<le> length bstr \<Longrightarrow> length u = length bstr \<Longrightarrow>
   fill_u8 n bstr u = map (\<lambda>c. of_nat (of_char c)) (take n bstr) @ drop n u"
proof (induction n arbitrary: u)
  case 0
  then show ?case by simp
next
  case (Suc n)
  then have "fill_u8 (Suc n) bstr u =
      map (\<lambda>c. of_nat (of_char c)) (take n bstr) @ drop n (u[n := of_nat (of_char (bstr ! n))])"
    by simp
  also have "drop n (u[n := of_nat (of_char (bstr ! n))]) = of_nat (of_char (bstr ! n)) # drop (Suc n) u"
    using Suc.prems by (metis Cons_nth_drop_Suc Suc_le_lessD length_list_update nth_list_update_eq drop_update_cancel lessI)
  finally show ?case using Suc.prems by (simp add: take_Suc_conv_app_nth)
qed

lemma fill_u8_all:
  "fill_u8 (length bstr) bstr (replicate (length bstr) 0) = map (\<lambda>c. of_nat (of_char c)) bstr"
  using fill_u8_take[of "length bstr" bstr "replicate (length bstr) 0"] by simp

lemma u8_of_binary_string:
  "map (\<lambda>c. of_nat (of_char c)) (map (\<lambda>b. char_of (unat b)) bs) = (bs :: 8 word list)"
proof -
  have "of_nat (of_char (char_of (unat b))) = b" for b :: "8 word"
    using unat8[of b] by (simp add: of_char_of)
  then show ?thesis by (simp add: map_idI)
qed

section \<open>Strings: splitting and matching a data URL\<close>

lemma split_on_nonempty: "split_on d xs \<noteq> []"
  by (induction xs) (auto split: list.splits)

lemma split_on_no_separator: "d \<notin> set a \<Longrightarrow> split_on d a = [a]"
  by (induction a) auto

lemma split_on_append:
  "d \<notin> set a \<Longrightarrow> split_on d (a @ d # r) = a # split_on d r"
  by (induction a) auto

lemma split_on_two:
  "d \<notin> set a \<Longrightarrow> d \<notin> set b \<Longrightarrow> split_on d (a @ d # b) = [a, b]"
  by (simp add: split_on_append split_on_no_separator)

lemma lazy_until_semicolon_append:
  "CHR '';'' \<notin> set g \<Longrightarrow> (\<And>c. c \<in> set g \<Longrightarrow> \<not> is_line_terminator c) \<Longrightarrow>
   lazy_until_semicolon (g @ CHR '';'' # r) = Some g"
  by (induction g) auto

lemma match_mime_data:
  assumes "CHR '';'' \<notin> set ty" and "\<And>c. c \<in> set ty \<Longrightarrow> \<not> is_line_terminator c"
  shows "match_mime (''data:'' @ ty @ '';base64'') = Some ty"
proof -
  have "lazy_until_semicolon (ty @ CHR '';'' # ''base64'') = Some ty"
    using assms by (rule lazy_until_semicolon_append)
  then show ?thesis by simp
qed

lemma encode_no_comma: "CHR '','' \<notin> set (base64_encode bs)"
proof
  assume "CHR '','' \<in> set (base64_encode bs)"
  then have "CHR '','' \<in> set (map b64_char (sextets bs)) \<or> CHR '','' \<in> set (padding bs)"
    by (simp add: base64_encode_def)
  then show False
  proof
    assume "CHR '','' \<in> set (map b64_char (sextets bs))"
    then obtain i where "i \<in> set (sextets bs)" and "b64_char i = CHR '',''" by auto
    then show False using sextets_bound[of i bs] b64_char_not_comma[of i] by simp
  next
    assume "CHR '','' \<in> set (padding bs)"
    then show False by (simp add: padding_def)
  qed
qed

lemma encode_empty_iff: "base64_encode bs = [] \<longleftrightarrow> bs = []"
  by (induction bs rule: sextets.induct) (simp_all add: base64_encode_def padding0)

lemma split_data_url:
  assumes "CHR '','' \<notin> set ty" and "CHR '','' \<notin> set b"
  shows "split_on CHR '','' (''data:'' @ ty @ '';base64,'' @ b) = [''data:'' @ ty @ '';base64'', b]"
proof -
  have "CHR '','' \<notin> set (''data:'' @ ty @ '';base64'')" using assms by simp
  from split_on_two[OF this assms(2)] show ?thesis by simp
qed

lemma fileToBase64_value:
  assumes "CHR '','' \<notin> set (ftype x)"
  shows "fileToBase64 x =
     (if \<not> readable x then Inl ProgressEvent
      else if fbytes x = [] then Inl (Error ''Failed to read base64 string from file.'')
      else Inr (base64_encode (fbytes x)))"
proof (cases "readable x")
  case False
  then show ?thesis by (simp add: fileToBase64_def readAsDataURL_def)
next
  case True
  let ?ty = "if ftype x = [] then ''application/octet-stream'' else ftype x"
  have "CHR '','' \<notin> set ?ty" using assms by simp
  then have "split_on CHR '','' (''data:'' @ ?ty @ '';base64,'' @ base64_encode (fbytes x)) =
      [''data:'' @ ?ty @ '';base64'', base64_encode (fbytes x)]"
    using encode_no_comma by (rule split_data_url)
  then show ?thesis
    using True by (simp add: fileToBase64_def readAsDataURL_def encode_empty_iff del: split_on.simps)
qed

lemma normalized_no_line_terminator:
  assumes "normalize_type ty = ty" and "c \<in> set ty"
  shows "\<not> is_line_terminator c"
proof
  assume lt: "is_line_terminator c"
  have "list_all printable ty"
    using assms by (auto simp: normalize_type_def split: if_splits)
  then have "printable c" using assms(2) by (simp add: list_all_iff)
  then show False using lt by (auto simp: printable_def is_line_terminator_def)
qed

lemma dataURLtoFile_payload:
  assumes "CHR '','' \<notin> set head" and "match_mime head = Some mime"
  shows "dataURLtoFile (head @ CHR '','' # base64_encode bs) filename =
           Inr (Some (new_File bs filename mime))"
proof -
  have sp: "split_on CHR '','' (head @ CHR '','' # base64_encode bs) = [head, base64_encode bs]"
    using assms(1) encode_no_comma by (rule split_on_two)
  have bytes: "fill_u8 (length (map (\<lambda>b. char_of (unat b)) bs)) (map (\<lambda>b. char_of (unat b)) bs)
      (replicate (length (map (\<lambda>b. char_of (unat b)) bs)) 0) = bs"
    by (simp only: fill_u8_all u8_of_binary_string)
  have l: "\<not> length [head, base64_encode bs] < 2" by simp
  have n0: "[head, base64_encode bs] ! 0 = head" by simp
  have n1: "[head, base64_encode bs] ! 1 = base64_encode bs" by simp
  show ?thesis
    unfolding dataURLtoFile_def Let_def sp
    by (simp only: l n0 n1 assms(2) atob_encode bytes if_False option.case sum.case)
qed

lemma dataURLtoFile_encoded:
  assumes "CHR '','' \<notin> set ty" and "CHR '';'' \<notin> set ty"
    and "\<And>c. c \<in> set ty \<Longrightarrow> \<not> is_line_terminator c"
  shows "dataURLtoFile (data_url ty (base64_encode bs)) filename =
           Inr (Some (new_File bs filename ty))"
proof -
  have c: "CHR '','' \<notin> set (''data:'' @ ty @ '';base64'')" using assms(1) by simp
  have mm: "match_mime (''data:'' @ ty @ '';base64'') = Some ty"
    using assms(2,3) by (rule match_mime_data)
  have "data_url ty (base64_encode bs) =
      (''data:'' @ ty @ '';base64'') @ CHR '','' # base64_encode bs"
    by (simp add: data_url_def)
  then show ?thesis using dataURLtoFile_payload[OF c mm] by simp
qed

text \<open>A string without a comma is no data URL for \<open>dataURLtoFile\<close>.\<close>

lemma dataURLtoFile_no_comma:
  "CHR '','' \<notin> set u \<Longrightarrow> dataURLtoFile u filename = Inr None"
  by (simp add: dataURLtoFile_def split_on_no_separator)

section \<open>The codec round trip\<close>

lemma png_file_simps:
  "fbytes png_file = [137, 80, 78, 71]" "ftype png_file = ''image/png''"
  "readable png_file" "fname png_file = ''me.png''"
  by (simp_all add: png_file_def new_File_def normalize_type_def printable_def ascii_lower_def)

lemma svg_file_simps:
  "fbytes svg_file = [60, 115, 118, 103, 47, 62]"
  "ftype svg_file = ''image/svg+xml;charset=utf-8''"
  "readable svg_file" "fname svg_file = ''look.svg''"
  by (simp_all add: svg_file_def new_File_def normalize_type_def printable_def ascii_lower_def)

lemma encode_png: "base64_encode [137, 80, 78, 71] = ''iVBORw==''"
  by (simp add: base64_encode_def sextet_def pack3_def pack1_def padding1 padding3
      b64_char_def char_of_eq_iff)

lemma encode_svg: "base64_encode [60, 115, 118, 103, 47, 62] = ''PHN2Zy8+''"
  by (simp add: base64_encode_def sextet_def pack3_def padding_def b64_char_def char_of_eq_iff)

lemma fileToBase64_png: "fileToBase64 png_file = Inr ''iVBORw==''"
  using fileToBase64_value[of png_file] by (simp add: png_file_simps encode_png)

lemma fileToBase64_svg: "fileToBase64 svg_file = Inr ''PHN2Zy8+''"
  using fileToBase64_value[of svg_file] by (simp add: svg_file_simps encode_svg)

text \<open>
  Claim C7, as the code has it.  For every file whose content \<open>fileToBase64\<close> encodes
  without error and whose MIME type, lower-case printable ASCII as \<open>File.type\<close> holds it,
  contains neither a comma nor a semicolon, wrapping the encoding as a data URL with that
  MIME type and passing it to \<open>dataURLtoFile\<close> gives a file with exactly the original bytes
  and the original MIME type.
\<close>

theorem codec_round_trip:
  assumes "fileToBase64 x = Inr b"
    and "CHR '','' \<notin> set (ftype x)" and "CHR '';'' \<notin> set (ftype x)"
    and "normalize_type (ftype x) = ftype x"
  shows "dataURLtoFile (data_url (ftype x) b) filename =
           Inr (Some \<lparr>fbytes = fbytes x, fname = filename, ftype = ftype x, readable = True\<rparr>)"
proof -
  have b: "b = base64_encode (fbytes x)"
    using assms(1) fileToBase64_value[OF assms(2)] by (simp split: if_splits)
  have "dataURLtoFile (data_url (ftype x) (base64_encode (fbytes x))) filename =
      Inr (Some (new_File (fbytes x) filename (ftype x)))"
    using assms(2,3) normalized_no_line_terminator[OF assms(4)]
    by (intro dataURLtoFile_encoded)
  then show ?thesis
    unfolding b by (simp add: new_File_def assms(4))
qed

theorem codec_round_trip_witness:
  "fileToBase64 png_file = Inr ''iVBORw==''
   \<and> CHR '','' \<notin> set (ftype png_file) \<and> CHR '';'' \<notin> set (ftype png_file)
   \<and> normalize_type (ftype png_file) = ftype png_file
   \<and> dataURLtoFile (data_url (ftype png_file) ''iVBORw=='') ''person.png'' =
       Inr (Some \<lparr>fbytes = [137, 80, 78, 71], fname = ''person.png'', ftype = ''image/png'',
                  readable = True\<rparr>)"
proof -
  have h2: "CHR '','' \<notin> set (ftype png_file)" and h3: "CHR '';'' \<notin> set (ftype png_file)"
    by (simp_all add: png_file_simps)
  have h4: "normalize_type (ftype png_file) = ftype png_file"
    by (simp add: png_file_simps normalize_type_def printable_def ascii_lower_def)
  show ?thesis
    using codec_round_trip[OF fileToBase64_png h2 h3 h4, of "''person.png''"] h2 h3 h4
    by (simp add: fileToBase64_png png_file_simps)
qed

text \<open>
  The claim as stated fails for a MIME type with a parameter: the pattern of
  \<open>dataURLtoFile\<close> ends the MIME type at the first semicolon.
\<close>

theorem codec_round_trip_counterexample:
  "fileToBase64 svg_file = Inr ''PHN2Zy8+''
   \<and> ftype svg_file = ''image/svg+xml;charset=utf-8''
   \<and> dataURLtoFile (data_url (ftype svg_file) ''PHN2Zy8+'') ''look.svg'' =
       Inr (Some \<lparr>fbytes = [60, 115, 118, 103, 47, 62], fname = ''look.svg'',
                  ftype = ''image/svg+xml'', readable = True\<rparr>)"
proof -
  have c: "CHR '','' \<notin> set ''data:image/svg+xml;charset=utf-8;base64''" by simp
  have m: "match_mime ''data:image/svg+xml;charset=utf-8;base64'' = Some ''image/svg+xml''"
    by (simp add: is_line_terminator_def)
  have u: "data_url (ftype svg_file) ''PHN2Zy8+'' =
      ''data:image/svg+xml;charset=utf-8;base64'' @ CHR '','' #
        base64_encode [60, 115, 118, 103, 47, 62]"
    by (simp add: data_url_def svg_file_simps encode_svg)
  have n: "new_File [60, 115, 118, 103, 47, 62] ''look.svg'' ''image/svg+xml'' =
      \<lparr>fbytes = [60, 115, 118, 103, 47, 62], fname = ''look.svg'',
       ftype = ''image/svg+xml'', readable = True\<rparr>"
    by (simp add: new_File_def normalize_type_def printable_def ascii_lower_def)
  show ?thesis
    unfolding u using dataURLtoFile_payload[OF c m, of "[60, 115, 118, 103, 47, 62]" "''look.svg''"]
    by (simp only: n fileToBase64_svg svg_file_simps simp_thms)
qed

section \<open>The try-on operation\<close>

lemma jpg_file_simps:
  "fbytes jpg_file = [255, 216, 255]" "ftype jpg_file = ''image/jpeg''"
  "readable jpg_file" "fname jpg_file = ''coat.jpg''"
  by (simp_all add: jpg_file_def new_File_def normalize_type_def printable_def ascii_lower_def)

lemma encode_jpg: "base64_encode [255, 216, 255] = ''/9j/''"
  by (simp add: base64_encode_def sextet_def pack3_def padding_def b64_char_def char_of_eq_iff)

lemma fileToBase64_jpg: "fileToBase64 jpg_file = Inr ''/9j/''"
  using fileToBase64_value[of jpg_file] by (simp add: jpg_file_simps encode_jpg)

lemma handleTryOn_body:
  assumes "personImage s = Some p" and "clothingImage s = Some c"
  shows "handleTryOn e s =
     (case tryOn_body e p c
             (s\<lparr>isLoading := True, error := None, generatedImage := None, view := Loading\<rparr>) of
        (None, s') \<Rightarrow> s'\<lparr>isLoading := False, loadingText := []\<rparr>
      | (Some x, s') \<Rightarrow>
          s'\<lparr>error := Some (message_or x (translate e s errorUnexpected)), view := TryOn,
             isLoading := False, loadingText := []\<rparr>)"
  using assms by (simp add: handleTryOn_def Let_def split: prod.splits option.splits)

text \<open>The state that \<open>handleTryOn\<close> leaves when both images are present, by the step that
  fails, or by the image that \<open>virtualTryOn\<close> returns.\<close>

lemma handleTryOn_state:
  assumes "personImage s = Some p" and "clothingImage s = Some c"
  shows "handleTryOn e s =
     (let failed = (\<lambda>x. s\<lparr>isLoading := False, loadingText := [], generatedImage := None,
                           error := Some (message_or x (translate e s errorUnexpected)),
                           view := TryOn\<rparr>);
          done = (\<lambda>img. s\<lparr>isLoading := False, loadingText := [], error := None,
                           generatedImage :=
                             Some (data_url (mimeType img) (data img), mimeType img),
                           history :=
                             \<lparr>person = previewUrl p, clothing = previewUrl c,
                                result = data_url (mimeType img) (data img)\<rparr> # history s,
                           view := Result\<rparr>);
          pm = ftype (file p); cm = ftype (file c); th = styleTheme s; k = length (sent s)
      in case fileToBase64 (file p) of
           Inl x \<Rightarrow> failed x
         | Inr pb \<Rightarrow>
             if removeBgEnabled s then
               (case removeBackground e k pb pm of
                  (reqs, Inl x) \<Rightarrow>
                    (failed x)\<lparr>calls := calls s @ [RemoveBackgroundCall pb pm],
                               sent := sent s @ reqs\<rparr>
                | (reqs, Inr bg) \<Rightarrow>
                    (case fileToBase64 (file c) of
                       Inl x \<Rightarrow>
                         (failed x)\<lparr>calls := calls s @ [RemoveBackgroundCall pb pm],
                                    sent := sent s @ reqs\<rparr>
                     | Inr cb \<Rightarrow>
                         (case virtualTryOn e (k + length reqs) (data bg) (mimeType bg) cb cm th of
                            (reqs', Inl x) \<Rightarrow>
                              (failed x)
                                \<lparr>calls := calls s @
                                   [RemoveBackgroundCall pb pm,
                                    VirtualTryOnCall (data bg) (mimeType bg) cb cm th],
                                 sent := sent s @ reqs @ reqs'\<rparr>
                          | (reqs', Inr img) \<Rightarrow>
                              (done img)
                                \<lparr>calls := calls s @
                                   [RemoveBackgroundCall pb pm,
                                    VirtualTryOnCall (data bg) (mimeType bg) cb cm th],
                                 sent := sent s @ reqs @ reqs'\<rparr>)))
             else
               (case fileToBase64 (file c) of
                  Inl x \<Rightarrow> failed x
                | Inr cb \<Rightarrow>
                    (case virtualTryOn e k pb pm cb cm th of
                       (reqs', Inl x) \<Rightarrow>
                         (failed x)\<lparr>calls := calls s @ [VirtualTryOnCall pb pm cb cm th],
                                    sent := sent s @ reqs'\<rparr>
                     | (reqs', Inr img) \<Rightarrow>
                         (done img)\<lparr>calls := calls s @ [VirtualTryOnCall pb pm cb cm th],
                                    sent := sent s @ reqs'\<rparr>)))"
  unfolding handleTryOn_body[OF assms] tryOn_body_def Let_def
  by (auto split: sum.splits prod.splits)


subsection \<open>Sample runs\<close>

lemma ready_state_simps:
  "personImage ready_state =
     Some \<lparr>file = png_file, previewUrl = ''blob:http://localhost:3000/p1''\<rparr>"
  "clothingImage ready_state =
     Some \<lparr>file = jpg_file, previewUrl = ''blob:http://localhost:3000/c1''\<rparr>"
  "removeBgEnabled ready_state" "styleTheme ready_state = Photorealistic"
  "calls ready_state = []" "sent ready_state = []" "history ready_state = []"
  "view ready_state = TryOn" "error ready_state = None" "language ready_state = Ru"
  by (simp_all add: ready_state_def fresh_state_def createObjectURL_def)

lemma blank_state_simps:
  "personImage blank_state =
     Some \<lparr>file = png_file, previewUrl = ''blob:http://localhost:3000/p1''\<rparr>"
  "clothingImage blank_state =
     Some \<lparr>file = blank_file, previewUrl = ''blob:http://localhost:3000/c2''\<rparr>"
  "removeBgEnabled blank_state" "styleTheme blank_state = Photorealistic"
  "calls blank_state = []" "sent blank_state = []" "history blank_state = []"
  "view blank_state = TryOn" "error blank_state = None" "language blank_state = Ru"
  by (simp_all add: blank_state_def ready_state_simps createObjectURL_def)


lemma blank_file_simps:
  "fbytes blank_file = []" "ftype blank_file = ''image/png''" "readable blank_file"
  by (simp_all add: blank_file_def new_File_def normalize_type_def printable_def ascii_lower_def)

text \<open>An empty image passes the check of \<open>handleImageChange\<close>, the file reader reads it,
  and \<open>fileToBase64\<close> rejects it.\<close>

lemma blank_file_accepted:
  "handleImageChange studio_env ClothingSlot blank_file
     (createObjectURL ''http://localhost:3000'' ''c2'') ready_state = blank_state"
  by (simp add: handleImageChange_def blank_file_simps blank_state_def ready_state_def
      fresh_state_def)

lemma readAsDataURL_blank: "readAsDataURL blank_file = Inr ''data:image/png;base64,''"
  by (simp add: readAsDataURL_def blank_file_simps base64_encode_def padding_def)

lemma fileToBase64_blank:
  "fileToBase64 blank_file = Inl (Error ''Failed to read base64 string from file.'')"
  using fileToBase64_value[of blank_file] by (simp add: blank_file_simps)


lemma removeBackground_samples:
  "removeBackground studio_env 0 b m =
     ([removeBackground_request b m], Inr \<lparr>data = ''QUJD'', mimeType = ''image/webp''\<rparr>)"
  "removeBackground blocked_env 0 b m =
     ([removeBackground_request b m], Inr \<lparr>data = ''QUJD'', mimeType = ''image/webp''\<rparr>)"
  "removeBackground silent_env 0 b m =
     ([removeBackground_request b m], Inr \<lparr>data = ''QUJD'', mimeType = ''image/webp''\<rparr>)"
  "removeBackground no_key_env k b m =
     ([], Inl (Error ''API_KEY environment variable is not set.''))"
  by (simp_all add: removeBackground_def has_API_KEY_def studio_env_def blocked_env_def
      silent_env_def no_key_env_def image_reply_def find_imagePart_def)

lemma virtualTryOn_samples:
  "virtualTryOn studio_env (Suc 0) pb pm cb cm th =
     ([virtualTryOn_request pb pm cb cm th], Inr \<lparr>data = ''REVG'', mimeType = ''image/png''\<rparr>)"
  "virtualTryOn blocked_env (Suc 0) pb pm cb cm th =
     ([virtualTryOn_request pb pm cb cm th],
      Inl (Error ''Failed to generate image. Please check the console for more details.''))"
  by (simp_all add: virtualTryOn_def has_API_KEY_def studio_env_def blocked_env_def
      image_reply_def find_imagePart_def)

subsection \<open>The gateway calls of a try-on\<close>

text \<open>
  Claim C1, as the code has it.  For every try-on invocation with both images present: when
  \<open>fileToBase64\<close> rejects the person file, no gateway call is made and nothing is sent.
  Otherwise, with the background-removal toggle enabled, exactly one \<open>removeBackground\<close>
  call is made, on the encoded person file; when it fails, or when \<open>fileToBase64\<close> rejects
  the clothing file, no \<open>virtualTryOn\<close> call is made; when both succeed, exactly one
  \<open>virtualTryOn\<close> call follows, and the person-image bytes and MIME type it is applied to
  are exactly the output of the \<open>removeBackground\<close> call.  With the toggle disabled no
  \<open>removeBackground\<close> call is made; when \<open>fileToBase64\<close> accepts the clothing file
  exactly one \<open>virtualTryOn\<close> call is made, applied to the original person image, and when
  it rejects the clothing file no call is made at all.  In each case the requests sent are
  those of the calls made, and the generated image is the one that this application of
  \<open>virtualTryOn\<close> returns.
\<close>

theorem try_on_calls:
  assumes "personImage s = Some p" and "clothingImage s = Some c"
  shows "let s' = handleTryOn e s;
             pm = ftype (file p); cm = ftype (file c); th = styleTheme s; k = length (sent s);
             shown = (\<lambda>res. case res of
                        Inl x \<Rightarrow> None
                      | Inr img \<Rightarrow> Some (data_url (mimeType img) (data img), mimeType img))
         in case fileToBase64 (file p) of
              Inl x \<Rightarrow> calls s' = calls s \<and> sent s' = sent s
            | Inr pb \<Rightarrow>
                if removeBgEnabled s then
                  (case removeBackground e k pb pm of
                     (reqs, Inl x) \<Rightarrow>
                       calls s' = calls s @ [RemoveBackgroundCall pb pm]
                       \<and> sent s' = sent s @ reqs
                   | (reqs, Inr bg) \<Rightarrow>
                       (case fileToBase64 (file c) of
                          Inl x \<Rightarrow>
                            calls s' = calls s @ [RemoveBackgroundCall pb pm]
                            \<and> sent s' = sent s @ reqs
                        | Inr cb \<Rightarrow>
                            calls s' =
                              calls s @ [RemoveBackgroundCall pb pm,
                                         VirtualTryOnCall (data bg) (mimeType bg) cb cm th]
                            \<and> sent s' =
                                sent s @ reqs @
                                fst (virtualTryOn e (k + length reqs) (data bg) (mimeType bg)
                                       cb cm th)
                            \<and> generatedImage s' =
                                shown (snd (virtualTryOn e (k + length reqs) (data bg)
                                              (mimeType bg) cb cm th))))
                else
                  (case fileToBase64 (file c) of
                     Inl x \<Rightarrow> calls s' = calls s \<and> sent s' = sent s
                   | Inr cb \<Rightarrow>
                       calls s' = calls s @ [VirtualTryOnCall pb pm cb cm th]
                       \<and> sent s' = sent s @ fst (virtualTryOn e k pb pm cb cm th)
                       \<and> generatedImage s' = shown (snd (virtualTryOn e k pb pm cb cm th)))"
  unfolding Let_def handleTryOn_state[OF assms]
  by (auto simp: Let_def split: sum.splits prod.splits)

theorem try_on_calls_witness:
  "personImage ready_state =
     Some \<lparr>file = png_file, previewUrl = ''blob:http://localhost:3000/p1''\<rparr>
   \<and> clothingImage ready_state =
     Some \<lparr>file = jpg_file, previewUrl = ''blob:http://localhost:3000/c1''\<rparr>
   \<and> removeBgEnabled ready_state
   \<and> removeBackground studio_env 0 ''iVBORw=='' ''image/png'' =
       ([removeBackground_request ''iVBORw=='' ''image/png''],
        Inr \<lparr>data = ''QUJD'', mimeType = ''image/webp''\<rparr>)
   \<and> calls (handleTryOn studio_env ready_state) =
       [RemoveBackgroundCall ''iVBORw=='' ''image/png'',
        VirtualTryOnCall ''QUJD'' ''image/webp'' ''/9j/'' ''image/jpeg'' Photorealistic]
   \<and> sent (handleTryOn studio_env ready_state) =
       [removeBackground_request ''iVBORw=='' ''image/png'',
        virtualTryOn_request ''QUJD'' ''image/webp'' ''/9j/'' ''image/jpeg'' Photorealistic]
   \<and> generatedImage (handleTryOn studio_env ready_state) =
       Some (''data:image/png;base64,REVG'', ''image/png'')"
  using try_on_calls[OF ready_state_simps(1) ready_state_simps(2), of studio_env]
  by (simp add: Let_def ready_state_simps fileToBase64_png fileToBase64_jpg png_file_simps
      jpg_file_simps removeBackground_samples virtualTryOn_samples data_url_def)

text \<open>
  The claim as stated fails in two ways.  Without a credential the one \<open>removeBackground\<close>
  call throws and no \<open>virtualTryOn\<close> call follows.  With an empty clothing image, which
  the upload handler accepts, the \<open>removeBackground\<close> call succeeds, \<open>fileToBase64\<close> then
  rejects the clothing file, and again no \<open>virtualTryOn\<close> call follows.
\<close>

theorem try_on_calls_counterexample:
  "personImage ready_state =
     Some \<lparr>file = png_file, previewUrl = ''blob:http://localhost:3000/p1''\<rparr>
   \<and> clothingImage ready_state =
     Some \<lparr>file = jpg_file, previewUrl = ''blob:http://localhost:3000/c1''\<rparr>
   \<and> removeBgEnabled ready_state
   \<and> calls (handleTryOn no_key_env ready_state) =
       [RemoveBackgroundCall ''iVBORw=='' ''image/png'']
   \<and> personImage blank_state =
     Some \<lparr>file = png_file, previewUrl = ''blob:http://localhost:3000/p1''\<rparr>
   \<and> clothingImage blank_state =
     Some \<lparr>file = blank_file, previewUrl = ''blob:http://localhost:3000/c2''\<rparr>
   \<and> removeBgEnabled blank_state
   \<and> readAsDataURL blank_file = Inr ''data:image/png;base64,''
   \<and> removeBackground studio_env 0 ''iVBORw=='' ''image/png'' =
       ([removeBackground_request ''iVBORw=='' ''image/png''],
        Inr \<lparr>data = ''QUJD'', mimeType = ''image/webp''\<rparr>)
   \<and> calls (handleTryOn studio_env blank_state) =
       [RemoveBackgroundCall ''iVBORw=='' ''image/png'']"
proof -
  have a: "calls (handleTryOn no_key_env ready_state) =
      [RemoveBackgroundCall ''iVBORw=='' ''image/png'']"
    unfolding handleTryOn_state[OF ready_state_simps(1) ready_state_simps(2)]
    by (simp add: Let_def ready_state_simps fileToBase64_png png_file_simps
        removeBackground_samples)
  have b: "calls (handleTryOn studio_env blank_state) =
      [RemoveBackgroundCall ''iVBORw=='' ''image/png'']"
    unfolding handleTryOn_state[OF blank_state_simps(1) blank_state_simps(2)]
    by (simp add: Let_def blank_state_simps fileToBase64_png fileToBase64_blank png_file_simps
        removeBackground_samples)
  show ?thesis
    by (simp add: a b ready_state_simps blank_state_simps readAsDataURL_blank
        removeBackground_samples)
qed

text \<open>
  Claim C3.  For every try-on invocation in which the person image or the clothing image
  is missing, the operation only sets the validation error: no gateway call is made, no
  request is sent, and the view stays what it was (\<open>tryOn\<close>, never \<open>loading\<close>).
\<close>

theorem try_on_missing_image:
  assumes "personImage s = None \<or> clothingImage s = None"
  shows "handleTryOn e s = s\<lparr>error := Some (translate e s errorNeedBothImagesUpload)\<rparr>
       \<and> calls (handleTryOn e s) = calls s \<and> sent (handleTryOn e s) = sent s
       \<and> view (handleTryOn e s) = view s"
proof -
  have "handleTryOn e s = s\<lparr>error := Some (translate e s errorNeedBothImagesUpload)\<rparr>"
    using assms by (auto simp: handleTryOn_def split: option.splits)
  then show ?thesis by simp
qed

theorem try_on_missing_image_witness:
  "(personImage (ready_state\<lparr>clothingImage := None\<rparr>) = None
      \<or> clothingImage (ready_state\<lparr>clothingImage := None\<rparr>) = None)
   \<and> calls (handleTryOn studio_env (ready_state\<lparr>clothingImage := None\<rparr>)) = []
   \<and> sent (handleTryOn studio_env (ready_state\<lparr>clothingImage := None\<rparr>)) = []
   \<and> view (handleTryOn studio_env (ready_state\<lparr>clothingImage := None\<rparr>)) = TryOn
   \<and> error (handleTryOn studio_env (ready_state\<lparr>clothingImage := None\<rparr>)) = Some ''message''"
proof -
  have h: "personImage (ready_state\<lparr>clothingImage := None\<rparr>) = None
      \<or> clothingImage (ready_state\<lparr>clothingImage := None\<rparr>) = None"
    by simp
  show ?thesis
    using try_on_missing_image[OF h, of studio_env]
    by (simp add: ready_state_simps translate_def studio_env_def)
qed



subsection \<open>The outcome of a try-on\<close>










section \<open>Saving and loading a session\<close>

text \<open>The state \<open>ready_state\<close> is what two uploads leave: the previews are object URLs.\<close>

lemma ready_state_uploaded:
  "handleImageChange studio_env ClothingSlot jpg_file
     (createObjectURL ''http://localhost:3000'' ''c1'')
     (handleImageChange studio_env PersonSlot png_file
        (createObjectURL ''http://localhost:3000'' ''p1'') (fresh_state\<lparr>view := TryOn\<rparr>))
   = ready_state"
  by (simp add: handleImageChange_def png_file_simps jpg_file_simps ready_state_def
      fresh_state_def)

lemma object_url_no_file:
  "CHR '','' \<notin> set origin \<Longrightarrow> CHR '','' \<notin> set uuid \<Longrightarrow>
   dataURLtoFile (createObjectURL origin uuid) filename = Inr None"
  by (rule dataURLtoFile_no_comma) (simp add: createObjectURL_def)

text \<open>Saving takes the two preview URLs, the toggle and the style theme into the one slot,
  whatever the slot held.\<close>

lemma save_session_slot:
  assumes "personImage s = Some p" and "clothingImage s = Some c"
    and "setItem (localStorage s) ''trayonSavedSession''
           (JSON_stringify e
              (JSession \<lparr>session_personImage = previewUrl p,
                          session_clothingImage = previewUrl c,
                          session_removeBgEnabled = removeBgEnabled s,
                          session_styleTheme = styleTheme s\<rparr>)) = Inr st"
  shows "fst (handleSaveSession e s) = None
       \<and> savedSession (snd (handleSaveSession e s)) =
           Some \<lparr>session_personImage = previewUrl p, session_clothingImage = previewUrl c,
                  session_removeBgEnabled = removeBgEnabled s,
                  session_styleTheme = styleTheme s\<rparr>
       \<and> localStorage (snd (handleSaveSession e s)) = st"
  using assms by (simp add: handleSaveSession_def Let_def)

text \<open>Loading always restores the toggle and the style theme and shows \<open>tryOn\<close>; it
  restores an image only when \<open>dataURLtoFile\<close> makes a file of the saved preview URL.\<close>

lemma load_session_settings:
  assumes "savedSession s = Some saved" and "fst (handleLoadSession s) = None"
  shows "removeBgEnabled (snd (handleLoadSession s)) = session_removeBgEnabled saved
       \<and> styleTheme (snd (handleLoadSession s)) = session_styleTheme saved
       \<and> view (snd (handleLoadSession s)) = TryOn"
  using assms
  by (auto simp: handleLoadSession_def Let_def split: sum.splits option.splits)

lemma load_session_object_urls:
  assumes "savedSession s = Some saved"
    and "dataURLtoFile (session_personImage saved) ''person.png'' = Inr None"
    and "dataURLtoFile (session_clothingImage saved) ''clothing.png'' = Inr None"
  shows "personImage (snd (handleLoadSession s)) = personImage s
       \<and> clothingImage (snd (handleLoadSession s)) = clothingImage s"
  using assms by (simp add: handleLoadSession_def Let_def)

lemma load_session_data_urls:
  assumes "savedSession s = Some saved"
    and "dataURLtoFile (session_personImage saved) ''person.png'' = Inr (Some pf)"
    and "dataURLtoFile (session_clothingImage saved) ''clothing.png'' = Inr (Some cf)"
  shows "personImage (snd (handleLoadSession s)) =
           Some \<lparr>file = pf, previewUrl = session_personImage saved\<rparr>
       \<and> clothingImage (snd (handleLoadSession s)) =
           Some \<lparr>file = cf, previewUrl = session_clothingImage saved\<rparr>"
  using assms by (simp add: handleLoadSession_def Let_def)

text \<open>
  Claim C4 at a state that two uploads leave.  The session is saved, a new try-on is
  started and the session is loaded: the toggle, the style theme and the view are
  restored, but both images stay empty, because the saved previews are object URLs and
  \<open>dataURLtoFile\<close> makes no file of them.
\<close>

theorem saved_session_images_not_restored:
  "personImage ready_state =
     Some \<lparr>file = png_file, previewUrl = ''blob:http://localhost:3000/p1''\<rparr>
   \<and> clothingImage ready_state =
     Some \<lparr>file = jpg_file, previewUrl = ''blob:http://localhost:3000/c1''\<rparr>
   \<and> savedSession (snd (handleSaveSession studio_env ready_state)) =
     Some \<lparr>session_personImage = ''blob:http://localhost:3000/p1'',
            session_clothingImage = ''blob:http://localhost:3000/c1'',
            session_removeBgEnabled = True, session_styleTheme = Photorealistic\<rparr>
   \<and> fst (handleLoadSession (snd (handleStartNew (snd (handleSaveSession studio_env ready_state)))))
     = None
   \<and> personImage
       (snd (handleLoadSession (snd (handleStartNew (snd (handleSaveSession studio_env ready_state))))))
     = None
   \<and> clothingImage
       (snd (handleLoadSession (snd (handleStartNew (snd (handleSaveSession studio_env ready_state))))))
     = None
   \<and> view
       (snd (handleLoadSession (snd (handleStartNew (snd (handleSaveSession studio_env ready_state))))))
     = TryOn"
proof -
  have u: "dataURLtoFile ''blob:http://localhost:3000/p1'' ''person.png'' = Inr None"
    "dataURLtoFile ''blob:http://localhost:3000/c1'' ''clothing.png'' = Inr None"
    by (rule dataURLtoFile_no_comma, simp)+
  have st: "localStorage ready_state = empty_storage"
    by (simp add: ready_state_def fresh_state_def)
  show ?thesis
    by (simp add: ready_state_simps st handleSaveSession_def handleStartNew_def
        handleLoadSession_def Let_def setItem_def removeItem_def empty_storage_def u)
qed

section \<open>The suggestion batch\<close>

subsection \<open>Settling one generation\<close>

lemma settle_images:
  "suggestionImages (settle suggestion outcome s) =
     (suggestionImages s)
       (name suggestion := settled_entry suggestion outcome (suggestionImages s (name suggestion)))"
  by (auto simp: settle_def settled_entry_def console_error_def Let_def
      split: sum.splits option.splits)

lemma settle_all_other:
  assumes "\<And>j. j \<in> set order \<Longrightarrow> j < length results \<Longrightarrow> name (results ! j) \<noteq> n"
  shows "suggestionImages (settle_all order results outcomes s) n = suggestionImages s n"
  using assms
proof (induction order arbitrary: s)
  case Nil
  then show ?case by simp
next
  case (Cons j order)
  have "suggestionImages
      (if j < length results \<and> j < length outcomes
       then settle (results ! j) (outcomes ! j) s else s) n = suggestionImages s n"
    using Cons.prems[of j] by (auto simp add: settle_images)
  moreover have "suggestionImages (settle_all order results outcomes s') n = suggestionImages s' n"
    for s'
    using Cons.prems by (intro Cons.IH) simp
  ultimately show ?case by simp
qed

lemma settle_all_entry:
  assumes "distinct (map name results)" and "distinct order" and "i \<in> set order"
    and "i < length results" and "length outcomes = length results"
  shows "suggestionImages (settle_all order results outcomes s) (name (results ! i)) =
     settled_entry (results ! i) (outcomes ! i) (suggestionImages s (name (results ! i)))"
  using assms(2,3)
proof (induction order arbitrary: s)
  case Nil
  then show ?case by simp
next
  case (Cons j order)
  have names: "name (results ! j') \<noteq> name (results ! i)"
    if "j' < length results" "j' \<noteq> i" for j'
    using that assms(1,4) by (metis distinct_conv_nth length_map nth_map)
  show ?case
  proof (cases "j = i")
    case True
    with Cons.prems have "i \<notin> set order" by simp
    then have "suggestionImages (settle_all order results outcomes s') (name (results ! i)) =
        suggestionImages s' (name (results ! i))" for s'
      using names by (intro settle_all_other) metis
    then show ?thesis
      using True assms(4,5) by (simp add: settle_images)
  next
    case False
    with Cons.prems have i: "i \<in> set order" and d: "distinct order" by simp_all
    have "suggestionImages
        (if j < length results \<and> j < length outcomes
         then settle (results ! j) (outcomes ! j) s else s) (name (results ! i)) =
        suggestionImages s (name (results ! i))"
      using names[of j] False by (auto simp add: settle_images)
    then show ?thesis using Cons.IH[OF d i] by simp
  qed
qed


subsection \<open>Starting the generations\<close>

lemma generateClothingImage_sent:
  "has_API_KEY e \<Longrightarrow>
   fst (generateClothingImage e k d) = [generateClothingImage_request d]"
  by (simp add: generateClothingImage_def)

lemma outcomes_from_length: "length (outcomes_from e k results) = length results"
  by (induction results arbitrary: k) simp_all

lemma outcomes_from_nth:
  "i < length results \<Longrightarrow>
   outcomes_from e k results ! i =
     snd (generateClothingImage e (k + i) (description (results ! i)))"
proof (induction results arbitrary: k i)
  case Nil
  then show ?case by simp
next
  case (Cons a results)
  then show ?case by (cases i) simp_all
qed

lemma start_generations_Cons:
  "start_generations e (a # rest) s =
     (snd (generateClothingImage e (length (sent s)) (description a))
        # fst (start_generations e rest
            (s\<lparr>suggestionImages := (suggestionImages s)(name a \<mapsto> ImageLoading),
               calls := calls s @ [GenerateClothingImageCall (description a)],
               sent := sent s @ fst (generateClothingImage e (length (sent s)) (description a))\<rparr>)),
      snd (start_generations e rest
            (s\<lparr>suggestionImages := (suggestionImages s)(name a \<mapsto> ImageLoading),
               calls := calls s @ [GenerateClothingImageCall (description a)],
               sent := sent s @ fst (generateClothingImage e (length (sent s)) (description a))\<rparr>)))"
  by (simp add: Let_def split: prod.splits)

lemma start_generations_outcomes:
  "has_API_KEY e \<Longrightarrow>
   fst (start_generations e results s) = outcomes_from e (length (sent s)) results"
proof (induction results arbitrary: s)
  case Nil
  then show ?case by simp
next
  case (Cons a results)
  then show ?case
    by (simp add: start_generations_Cons generateClothingImage_sent del: start_generations.simps)
qed

lemma start_generations_images:
  "suggestionImages (snd (start_generations e results s)) n =
     (if n \<in> name ` set results then Some ImageLoading else suggestionImages s n)"
proof (induction results arbitrary: s)
  case Nil
  then show ?case by simp
next
  case (Cons a results)
  then show ?case
    by (simp add: start_generations_Cons del: start_generations.simps)
qed

lemma getClothingSuggestions_fetched:
  "snd (getClothingSuggestions e k p l) = Inr results \<Longrightarrow>
   has_API_KEY e \<and> fst (getClothingSuggestions e k p l) = [getClothingSuggestions_request p l]"
  by (auto simp: getClothingSuggestions_def split: if_splits)


subsection \<open>The whole handler\<close>

lemma handleGetSuggestions_batch:
  assumes "fp = (if stylistPrompt s = ''custom'' then customStylistPrompt s else stylistPrompt s)"
    and "fp \<noteq> []"
    and "snd (getClothingSuggestions e (length (sent s)) fp (language s)) = Inr results"
  shows "\<exists>s5. suggestionImages s5 = Map.empty \<and> length (sent s5) = Suc (length (sent s))
           \<and> suggestionImages (handleGetSuggestions e order s) =
               suggestionImages
                 (settle_all order results (fst (start_generations e results s5))
                    (snd (start_generations e results s5)))"
proof -
  from getClothingSuggestions_fetched[OF assms(3)]
  have f: "fst (getClothingSuggestions e (length (sent s)) fp (language s)) =
      [getClothingSuggestions_request fp (language s)]"
    by simp
  let ?s5 = "s\<lparr>error := None, suggestionImages := Map.empty,
    calls := calls s @ [GetClothingSuggestionsCall fp (language s)],
    sent := sent s @ [getClothingSuggestions_request fp (language s)],
    suggestions := results, loadingText := translate e s generatingImageGallery\<rparr>"
  have "suggestionImages (handleGetSuggestions e order s) =
      suggestionImages
        (settle_all order results (fst (start_generations e results ?s5))
           (snd (start_generations e results ?s5)))"
    using assms(2,3) f unfolding handleGetSuggestions_def assms(1)[symmetric] Let_def
    by (simp add: split_beta del: start_generations.simps)
  moreover have "suggestionImages ?s5 = Map.empty" "length (sent ?s5) = Suc (length (sent s))"
    by simp_all
  ultimately show ?thesis by blast
qed

lemma batch_entry:
  assumes "fp = (if stylistPrompt s = ''custom'' then customStylistPrompt s else stylistPrompt s)"
    and "fp \<noteq> []"
    and "snd (getClothingSuggestions e (length (sent s)) fp (language s)) = Inr results"
    and "distinct (map name results)" and "distinct order" and "i \<in> set order"
    and "i < length results"
  shows "suggestionImages (handleGetSuggestions e order s) (name (results ! i)) =
     settled_entry (results ! i)
       (snd (generateClothingImage e (Suc (length (sent s) + i)) (description (results ! i))))
       (Some ImageLoading)"
proof -
  from handleGetSuggestions_batch[OF assms(1-3), of order]
  obtain s5 where s5: "suggestionImages s5 = Map.empty" "length (sent s5) = Suc (length (sent s))"
    "suggestionImages (handleGetSuggestions e order s) =
       suggestionImages
         (settle_all order results (fst (start_generations e results s5))
            (snd (start_generations e results s5)))"
    by blast
  have key: "has_API_KEY e" using getClothingSuggestions_fetched[OF assms(3)] by simp
  have o: "fst (start_generations e results s5) =
      outcomes_from e (Suc (length (sent s))) results"
    using start_generations_outcomes[OF key, of results s5] s5(2) by simp
  have l: "length (outcomes_from e (Suc (length (sent s))) results) = length results"
    by (rule outcomes_from_length)
  have m: "suggestionImages (snd (start_generations e results s5)) (name (results ! i)) =
      Some ImageLoading"
    using assms(7) by (simp add: start_generations_images)
  show ?thesis
    unfolding s5(3) o
    using settle_all_entry[OF assms(4,5,6,7) l] m
      outcomes_from_nth[OF assms(7), of e "Suc (length (sent s))"]
    by simp
qed


subsection \<open>The requests of the suggestion flow\<close>

lemma settle_sent: "sent (settle suggestion outcome s) = sent s"
  by (auto simp: settle_def console_error_def Let_def split: sum.splits option.splits)

lemma settle_all_sent: "sent (settle_all order results outcomes s) = sent s"
  by (induction order arbitrary: s) (simp_all add: settle_sent)

lemma start_generations_sent:
  "has_API_KEY e \<Longrightarrow>
   sent (snd (start_generations e results s)) =
     sent s @ map (\<lambda>suggestion. generateClothingImage_request (description suggestion)) results"
proof (induction results arbitrary: s)
  case Nil
  then show ?case by simp
next
  case (Cons a results)
  then show ?case
    by (simp add: start_generations_Cons generateClothingImage_sent del: start_generations.simps)
qed

lemma suggestion_requests:
  assumes "fp = (if stylistPrompt s = ''custom'' then customStylistPrompt s else stylistPrompt s)"
    and "fp \<noteq> []"
    and "snd (getClothingSuggestions e (length (sent s)) fp (language s)) = Inr results"
  shows "sent (handleGetSuggestions e order s) =
     sent s @ getClothingSuggestions_request fp (language s)
       # map (\<lambda>suggestion. generateClothingImage_request (description suggestion)) results"
proof -
  from getClothingSuggestions_fetched[OF assms(3)]
  have key: "has_API_KEY e"
    and f: "fst (getClothingSuggestions e (length (sent s)) fp (language s)) =
      [getClothingSuggestions_request fp (language s)]"
    by simp_all
  show ?thesis
    using assms(2,3) f unfolding handleGetSuggestions_def assms(1)[symmetric] Let_def
    by (simp add: split_beta settle_all_sent start_generations_sent[OF key]
        del: start_generations.simps)
qed

lemma getClothingSuggestions_stylist:
  "snd (getClothingSuggestions stylist_env 0 p l) = Inr three_suggestions"
  by (simp add: getClothingSuggestions_def has_API_KEY_def stylist_env_def studio_env_def
      suggestions_reply_def)

lemma asking_state_simps:
  "stylistPrompt (asking_state c) = ''casual''" "language (asking_state c) = En"
  "sent (asking_state c) = []" "preferredColors (asking_state c) = c"
  by (simp_all add: asking_state_def fresh_state_def)

text \<open>
  Claim C5 at two inputs that differ in the preferred colours only.  The handler passes
  the preferred-colours text to \<open>getClothingSuggestions\<close>, which has no parameter for it:
  the requests sent to the external model are the same for \<open>red\<close> and for \<open>blue\<close>, and the
  first of them is built from the prompt and the language alone.
\<close>

theorem preferred_colors_not_sent:
  "preferredColors (asking_state ''red'') = ''red''
   \<and> preferredColors (asking_state ''blue'') = ''blue''
   \<and> sent (handleGetSuggestions stylist_env [0, 1, 2] (asking_state ''red'')) =
       [getClothingSuggestions_request ''casual'' En,
        generateClothingImage_request ''a white linen shirt'',
        generateClothingImage_request ''a faded denim jacket'',
        generateClothingImage_request ''a grey wool coat'']
   \<and> sent (handleGetSuggestions stylist_env [0, 1, 2] (asking_state ''blue'')) =
       [getClothingSuggestions_request ''casual'' En,
        generateClothingImage_request ''a white linen shirt'',
        generateClothingImage_request ''a faded denim jacket'',
        generateClothingImage_request ''a grey wool coat'']"
proof -
  have "sent (handleGetSuggestions stylist_env [0, 1, 2] (asking_state c)) =
      [getClothingSuggestions_request ''casual'' En,
       generateClothingImage_request ''a white linen shirt'',
       generateClothingImage_request ''a faded denim jacket'',
       generateClothingImage_request ''a grey wool coat'']" for c
    using suggestion_requests[of "''casual''" "asking_state c" stylist_env three_suggestions
        "[0, 1, 2]"]
    by (simp add: asking_state_simps getClothingSuggestions_stylist three_suggestions_def)
  then show ?thesis by (simp add: asking_state_simps)
qed


subsection \<open>What the map holds when the batch has settled\<close>

lemma replace_spaces_names:
  "replace_spaces False ''Linen shirt'' = ''Linen-shirt''"
  "replace_spaces False ''Denim jacket'' = ''Denim-jacket''"
  "replace_spaces False ''Wool coat'' = ''Wool-coat''"
  by (simp_all add: is_space_def)




lemma odd_type_url_null:
  "dataURLtoFile (data_url ''image/png,x'' ''QUJD'') filename = Inr None"
  by (simp add: dataURLtoFile_def data_url_def)



lemma generateClothingImage_samples:
  "snd (generateClothingImage stylist_env k d) =
     (if k = 0 then Inl (Error ''Failed to generate clothing image. Please check the console.'')
      else if k = 1 then Inr \<lparr>data = ''QUJD'', mimeType = ''image/png''\<rparr>
      else if k = 2 then Inl (Error ''Failed to generate clothing image. Please check the console.'')
      else Inr \<lparr>data = ''REVG'', mimeType = ''image/png''\<rparr>)"
  "snd (generateClothingImage garbled_env k d) =
     (if k = 0 then Inl (Error ''Failed to generate clothing image. Please check the console.'')
      else if k = 1 then Inr \<lparr>data = ''!!!!'', mimeType = ''image/png''\<rparr>
      else if k = 2 then Inl (Error ''Failed to generate clothing image. Please check the console.'')
      else Inr \<lparr>data = ''REVG'', mimeType = ''image/png''\<rparr>)"
  "snd (generateClothingImage odd_type_env k d) =
     (if k = 0 then Inl (Error ''Failed to generate clothing image. Please check the console.'')
      else if k = 1 then Inr \<lparr>data = ''QUJD'', mimeType = ''image/png,x''\<rparr>
      else if k = 2 then Inl (Error ''Failed to generate clothing image. Please check the console.'')
      else Inr \<lparr>data = ''REVG'', mimeType = ''image/png''\<rparr>)"
  by (simp_all add: generateClothingImage_def has_API_KEY_def stylist_env_def garbled_env_def
      odd_type_env_def studio_env_def image_reply_def suggestions_reply_def find_imagePart_def)

lemma getClothingSuggestions_samples:
  "snd (getClothingSuggestions garbled_env 0 p l) = Inr three_suggestions"
  "snd (getClothingSuggestions odd_type_env 0 p l) = Inr three_suggestions"
  by (simp_all add: getClothingSuggestions_def has_API_KEY_def garbled_env_def odd_type_env_def
      studio_env_def suggestions_reply_def)

text \<open>
  Claim C10, as the code has it.  In a batch of suggestions with distinct names, if the image generation for a
  suggestion succeeds but \<open>dataURLtoFile\<close> makes no file of the returned image's data URL
  (it returns \<open>null\<close>), the entry of that suggestion is neither replaced by a payload nor
  removed: it is still the \<open>loading\<close> marker when the whole batch has settled, in whatever
  order the generations resolve.
\<close>

theorem unparsed_image_stays_loading:
  assumes "fp = (if stylistPrompt s = ''custom'' then customStylistPrompt s else stylistPrompt s)"
    and "fp \<noteq> []"
    and "snd (getClothingSuggestions e (length (sent s)) fp (language s)) = Inr results"
    and "distinct (map name results)"
    and "distinct order" and "set order = {..<length results}"
    and "i < length results"
    and "snd (generateClothingImage e (Suc (length (sent s) + i)) (description (results ! i)))
           = Inr imageResult"
    and "dataURLtoFile (data_url (mimeType imageResult) (data imageResult))
           (replace_spaces False (name (results ! i)) @ ''.png'') = Inr None"
  shows "suggestionImages (handleGetSuggestions e order s) (name (results ! i))
           = Some ImageLoading"
proof -
  have "i \<in> set order" using assms(6,7) by simp
  from batch_entry[OF assms(1-5) this assms(7)] show ?thesis
    by (simp add: settled_entry_def assms(8,9))
qed

theorem unparsed_image_stays_loading_witness:
  "snd (getClothingSuggestions odd_type_env 0 ''casual'' En) = Inr three_suggestions
   \<and> distinct (map name three_suggestions)
   \<and> snd (generateClothingImage odd_type_env 1 ''a white linen shirt'')
       = Inr \<lparr>data = ''QUJD'', mimeType = ''image/png,x''\<rparr>
   \<and> dataURLtoFile (data_url ''image/png,x'' ''QUJD'') ''Linen-shirt.png'' = Inr None
   \<and> suggestionImages (handleGetSuggestions odd_type_env [2, 0, 1] (asking_state []))
        ''Linen shirt'' = Some ImageLoading"
proof -
  have h1: "''casual'' =
      (if stylistPrompt (asking_state []) = ''custom'' then customStylistPrompt (asking_state [])
       else stylistPrompt (asking_state []))"
    by (simp add: asking_state_simps)
  have h2: "''casual'' \<noteq> []" by simp
  have h3: "snd (getClothingSuggestions odd_type_env (length (sent (asking_state []))) ''casual''
      (language (asking_state []))) = Inr three_suggestions"
    by (simp add: asking_state_simps getClothingSuggestions_samples)
  have h4: "distinct (map name three_suggestions)" by (simp add: three_suggestions_def)
  have h5: "distinct [2, 0, 1::nat]" by simp
  have h6: "set [2, 0, 1::nat] = {..<length three_suggestions}"
    by (auto simp: three_suggestions_def)
  have h7: "0 < length three_suggestions" by (simp add: three_suggestions_def)
  have h8: "snd (generateClothingImage odd_type_env (Suc (length (sent (asking_state [])) + 0))
      (description (three_suggestions ! 0))) = Inr \<lparr>data = ''QUJD'', mimeType = ''image/png,x''\<rparr>"
    by (simp add: asking_state_simps generateClothingImage_samples)
  have h9: "dataURLtoFile
      (data_url (mimeType \<lparr>data = ''QUJD'', mimeType = ''image/png,x''\<rparr>)
         (data \<lparr>data = ''QUJD'', mimeType = ''image/png,x''\<rparr>))
      (replace_spaces False (name (three_suggestions ! 0)) @ ''.png'') = Inr None"
    by (simp add: odd_type_url_null)
  show ?thesis
    using unparsed_image_stays_loading[OF h1 h2 h3 h4 h5 h6 h7 h8 h9] h4
    by (simp add: getClothingSuggestions_samples generateClothingImage_samples
        odd_type_url_null three_suggestions_def)
qed

text \<open>
  The entry is kept under the name of the suggestion, so two suggestions of one name share
  it.  When the generation for one of them gives an image of which \<open>dataURLtoFile\<close> makes
  no file and the generation for the other fails, the \<open>catch\<close> callback of the other
  deletes the entry: it is gone when the batch has settled, in either order.
\<close>

lemma twin_samples:
  "has_API_KEY twin_env"
  "snd (getClothingSuggestions twin_env 0 p l) = Inr twin_suggestions"
  "snd (generateClothingImage twin_env k d) =
     (if k = 1 then Inr \<lparr>data = ''QUJD'', mimeType = ''image/png,x''\<rparr>
      else Inl (Error ''Failed to generate clothing image. Please check the console.''))"
  by (simp_all add: getClothingSuggestions_def generateClothingImage_def has_API_KEY_def
      twin_env_def studio_env_def image_reply_def find_imagePart_def)

lemma twin_batch:
  assumes "order = [0, 1] \<or> order = [1, 0]"
  shows "suggestionImages (handleGetSuggestions twin_env order (asking_state [])) ''Linen shirt''
           = None"
proof -
  let ?s = "asking_state []"
  let ?failed = "Inl (Error ''Failed to generate clothing image. Please check the console.'')
    :: exn + ImageResult"
  let ?odd = "Inr \<lparr>data = ''QUJD'', mimeType = ''image/png,x''\<rparr> :: exn + ImageResult"
  have h1: "''casual'' =
      (if stylistPrompt ?s = ''custom'' then customStylistPrompt ?s else stylistPrompt ?s)"
    by (simp add: asking_state_simps)
  have h2: "''casual'' \<noteq> []" by simp
  have h3: "snd (getClothingSuggestions twin_env (length (sent ?s)) ''casual'' (language ?s))
      = Inr twin_suggestions"
    by (simp add: asking_state_simps twin_samples)
  from handleGetSuggestions_batch[OF h1 h2 h3, of order]
  obtain s5 where s5: "suggestionImages s5 = Map.empty" "length (sent s5) = Suc 0"
    "suggestionImages (handleGetSuggestions twin_env order ?s) =
       suggestionImages
         (settle_all order twin_suggestions (fst (start_generations twin_env twin_suggestions s5))
            (snd (start_generations twin_env twin_suggestions s5)))"
    by (auto simp: asking_state_simps)
  have "outcomes_from twin_env (Suc 0) twin_suggestions = [?odd, ?failed]"
    by (simp add: twin_suggestions_def twin_samples)
  then have outs: "fst (start_generations twin_env twin_suggestions s5) = [?odd, ?failed]"
    by (simp only: start_generations_outcomes[OF twin_samples(1)] s5(2))
  have first: "suggestionImages (settle (twin_suggestions ! 0) ?odd s) n = suggestionImages s n"
    for s n
    by (simp add: settle_images settled_entry_def twin_suggestions_def odd_type_url_null
        is_space_def)
  have second: "suggestionImages (settle (twin_suggestions ! Suc 0) ?failed s) ''Linen shirt''
      = None" for s
    by (simp add: settle_images settled_entry_def twin_suggestions_def)
  have len: "length twin_suggestions = Suc (Suc 0)" by (simp add: twin_suggestions_def)
  let ?S = "snd (start_generations twin_env twin_suggestions s5)"
  have a: "suggestionImages (settle_all [0, Suc 0] twin_suggestions [?odd, ?failed] ?S)
      ''Linen shirt'' = None"
    by (simp add: len second del: One_nat_def)
  have b: "suggestionImages (settle_all [Suc 0, 0] twin_suggestions [?odd, ?failed] ?S)
      ''Linen shirt'' = None"
    by (simp add: len first second del: One_nat_def)
  have "suggestionImages (settle_all order twin_suggestions [?odd, ?failed] ?S) ''Linen shirt''
      = None"
    using assms a b by (auto simp del: settle_all.simps)
  then show ?thesis by (simp only: s5(3) outs)
qed

theorem unparsed_image_stays_loading_counterexample:
  "snd (getClothingSuggestions twin_env 0 ''casual'' En) = Inr twin_suggestions
   \<and> snd (generateClothingImage twin_env 1 ''a white linen shirt'')
       = Inr \<lparr>data = ''QUJD'', mimeType = ''image/png,x''\<rparr>
   \<and> dataURLtoFile (data_url ''image/png,x'' ''QUJD'') ''Linen-shirt.png'' = Inr None
   \<and> snd (generateClothingImage twin_env 2 ''a cream linen shirt'')
       = Inl (Error ''Failed to generate clothing image. Please check the console.'')
   \<and> suggestionImages (handleGetSuggestions twin_env [0, 1] (asking_state []))
        ''Linen shirt'' = None
   \<and> suggestionImages (handleGetSuggestions twin_env [1, 0] (asking_state []))
        ''Linen shirt'' = None"
proof -
  have a: "suggestionImages (handleGetSuggestions twin_env [0, 1] (asking_state []))
      ''Linen shirt'' = None"
    by (rule twin_batch) simp
  have b: "suggestionImages (handleGetSuggestions twin_env [1, 0] (asking_state []))
      ''Linen shirt'' = None"
    by (rule twin_batch) simp
  from a b show ?thesis by (simp add: twin_samples odd_type_url_null)
qed










section \<open>Failures of the local storage\<close>

subsection \<open>The effects that persist state\<close>

lemma persist_theme_caught:
  "persist_theme s =
     (None, case setItem (localStorage s) ''trayonTheme'' (theme_name (theme s)) of
              Inl x \<Rightarrow> s\<lparr>console := console s @ [''Failed to save theme'']\<rparr>
            | Inr st \<Rightarrow> s\<lparr>localStorage := st\<rparr>)"
  by (simp add: persist_theme_def console_error_def split: sum.split)

lemma persist_language_caught:
  "persist_language s =
     (None, case setItem (localStorage s) ''trayonLanguage'' (language_name (language s)) of
              Inl x \<Rightarrow> s\<lparr>console := console s @ [''Failed to save language'']\<rparr>
            | Inr st \<Rightarrow> s\<lparr>localStorage := st\<rparr>)"
  by (simp add: persist_language_def console_error_def split: sum.split)

lemma persist_history_caught:
  "persist_history e s =
     (None, case setItem (localStorage s) ''trayonHistory''
                   (JSON_stringify e (JHistory (history s))) of
              Inl x \<Rightarrow> s\<lparr>console := console s @ [''Failed to save history'']\<rparr>
            | Inr st \<Rightarrow> s\<lparr>localStorage := st\<rparr>)"
  by (simp add: persist_history_def console_error_def split: sum.split)

lemma persist_removeBgEnabled_caught:
  "persist_removeBgEnabled e s =
     (None, case setItem (localStorage s) ''trayonRemoveBg''
                   (JSON_stringify e (JBool (removeBgEnabled s))) of
              Inl x \<Rightarrow> s\<lparr>console := console s @ [''Failed to save removeBg setting'']\<rparr>
            | Inr st \<Rightarrow> s\<lparr>localStorage := st\<rparr>)"
  by (simp add: persist_removeBgEnabled_def console_error_def split: sum.split)

lemma persist_styleTheme_caught:
  "persist_styleTheme s =
     (None, case setItem (localStorage s) ''trayonStyleTheme'' (styleTheme_name (styleTheme s)) of
              Inl x \<Rightarrow> s\<lparr>console := console s @ [''Failed to save style theme'']\<rparr>
            | Inr st \<Rightarrow> s\<lparr>localStorage := st\<rparr>)"
  by (simp add: persist_styleTheme_def console_error_def split: sum.split)

lemma persist_personImage_caught:
  "persist_personImage s =
     (None, case (case personImage s of
                    Some img \<Rightarrow> setItem (localStorage s) ''trayonPersonImage'' (previewUrl img)
                  | None \<Rightarrow> removeItem (localStorage s) ''trayonPersonImage'') of
              Inl x \<Rightarrow> s\<lparr>console := console s @ [''Failed to save person image'']\<rparr>
            | Inr st \<Rightarrow> s\<lparr>localStorage := st\<rparr>)"
  by (simp add: persist_personImage_def console_error_def split: sum.split)

lemma persist_clothingImage_caught:
  "persist_clothingImage s =
     (None, case (case clothingImage s of
                    Some img \<Rightarrow> setItem (localStorage s) ''trayonClothingImage'' (previewUrl img)
                  | None \<Rightarrow> removeItem (localStorage s) ''trayonClothingImage'') of
              Inl x \<Rightarrow> s\<lparr>console := console s @ [''Failed to save clothing image'']\<rparr>
            | Inr st \<Rightarrow> s\<lparr>localStorage := st\<rparr>)"
  by (simp add: persist_clothingImage_def console_error_def split: sum.split)


subsection \<open>The effect that loads on the first render\<close>

lemma load_history_frame:
  "error (snd (load_history e s)) = error s \<and> view (snd (load_history e s)) = view s
   \<and> localStorage (snd (load_history e s)) = localStorage s
   \<and> console (snd (load_history e s)) = console s"
  by (simp add: load_history_def split: sum.split option.split json.split)

lemma load_savedSession_frame:
  "error (snd (load_savedSession e s)) = error s \<and> view (snd (load_savedSession e s)) = view s
   \<and> localStorage (snd (load_savedSession e s)) = localStorage s
   \<and> console (snd (load_savedSession e s)) = console s"
  by (simp add: load_savedSession_def split: sum.split option.split json.split)

lemma load_images_frame:
  "error (snd (load_images s)) = error s \<and> view (snd (load_images s)) = view s
   \<and> localStorage (snd (load_images s)) = localStorage s
   \<and> console (snd (load_images s)) = console s"
  by (simp add: load_images_def split: sum.split option.split)

lemma load_effect_caught:
  "fst (load_effect e s) = None"
  "error (snd (load_effect e s)) = error s"
  "view (snd (load_effect e s)) = view s"
  "localStorage (snd (load_effect e s)) = localStorage s"
  "console (snd (load_effect e s)) = console s
   \<or> console (snd (load_effect e s)) = console s @ [''Failed to load data from localStorage'']"
proof -
  obtain r1 s1 where h: "load_history e s = (r1, s1)" by (cases "load_history e s")
  obtain r2 s2 where v: "load_savedSession e s1 = (r2, s2)" by (cases "load_savedSession e s1")
  obtain r3 s3 where i: "load_images s2 = (r3, s3)" by (cases "load_images s2")
  from load_history_frame[of e s] h
  have f1: "error s1 = error s" "view s1 = view s" "localStorage s1 = localStorage s"
    "console s1 = console s" by simp_all
  from load_savedSession_frame[of e s1] v f1
  have f2: "error s2 = error s" "view s2 = view s" "localStorage s2 = localStorage s"
    "console s2 = console s" by simp_all
  from load_images_frame[of s2] i f2
  have f3: "error s3 = error s" "view s3 = view s" "localStorage s3 = localStorage s"
    "console s3 = console s" by simp_all
  show "fst (load_effect e s) = None"
    by (simp add: load_effect_def h v i split: option.split)
  show "error (snd (load_effect e s)) = error s"
    by (simp add: load_effect_def h v i f1 f2 f3 console_error_def split: option.split)
  show "view (snd (load_effect e s)) = view s"
    by (simp add: load_effect_def h v i f1 f2 f3 console_error_def split: option.split)
  show "localStorage (snd (load_effect e s)) = localStorage s"
    by (simp add: load_effect_def h v i f1 f2 f3 console_error_def split: option.split)
  show "console (snd (load_effect e s)) = console s
   \<or> console (snd (load_effect e s)) = console s @ [''Failed to load data from localStorage'']"
    by (simp add: load_effect_def h v i f1 f2 f3 console_error_def split: option.split)
qed

lemma load_effect_denied:
  "denied (localStorage s) \<longrightarrow>
   load_effect e s = (None, s\<lparr>console := console s @ [''Failed to load data from localStorage'']\<rparr>)"
  by (simp add: load_effect_def load_history_def getItem_def console_error_def)


subsection \<open>The initialisers\<close>

lemma initialisers_caught:
  "\<exists>v. init_theme st log = (Inr v, log)"
  "\<exists>v. init_language st log = (Inr v, log)"
  "\<exists>v. init_removeBgEnabled e st log = (Inr v, log)"
  "\<exists>v. init_styleTheme st log = (Inr v, log)"
  by (simp_all add: init_theme_def init_language_def init_removeBgEnabled_def
      init_styleTheme_def split: sum.split option.split)

lemma initialisers_denied:
  "denied st \<longrightarrow> init_theme st log = (Inr ''light'', log)"
  "denied st \<longrightarrow> init_language st log = (Inr ''ru'', log)"
  "denied st \<longrightarrow> init_removeBgEnabled e st log = (Inr (JBool True), log)"
  "denied st \<longrightarrow> init_styleTheme st log = (Inr Photorealistic, log)"
  by (simp_all add: init_theme_def init_language_def init_removeBgEnabled_def
      init_styleTheme_def getItem_def)


subsection \<open>Saving a session\<close>

lemma handleSaveSession_caught:
  "fst (handleSaveSession e s) = None"
  by (simp add: handleSaveSession_def Let_def split: option.split sum.split)

lemma handleSaveSession_shown:
  "personImage s = Some p \<and> clothingImage s = Some c \<longrightarrow>
   handleSaveSession e s =
     (None,
      case setItem (localStorage s) ''trayonSavedSession''
             (JSON_stringify e
                (JSession \<lparr>session_personImage = previewUrl p,
                            session_clothingImage = previewUrl c,
                            session_removeBgEnabled = removeBgEnabled s,
                            session_styleTheme = styleTheme s\<rparr>)) of
        Inl x \<Rightarrow> s\<lparr>error := Some (translate e s errorSaveSession)\<rparr>
      | Inr st \<Rightarrow>
          s\<lparr>localStorage := st,
             savedSession := Some \<lparr>session_personImage = previewUrl p,
                                    session_clothingImage = previewUrl c,
                                    session_removeBgEnabled = removeBgEnabled s,
                                    session_styleTheme = styleTheme s\<rparr>,
             alerts := alerts s @ [translate e s sessionSaved]\<rparr>)"
  by (simp add: handleSaveSession_def Let_def split: sum.split)


subsection \<open>What a failure of the storage does\<close>

text \<open>
  Claim C8, as the code has it.  A failure of the local storage never escapes a
  persistence effect, the loading effect, an initialiser or \<open>handleSaveSession\<close>.  In each
  of the seven effects that persist state a failed write is caught and logged, and nothing
  else changes; a write that succeeds changes the storage only.  The loading effect leaves
  the error message, the view and the storage as they were and logs at most one line; when
  the storage denies access it only logs.  An initialiser whose read fails returns its
  default and logs nothing.  In \<open>handleSaveSession\<close> with both images present, a failed
  write is caught and shown to the user: the error message becomes the text of
  \<open>errorSaveSession\<close>, nothing is logged, and nothing else changes.
\<close>

theorem storage_failures_caught:
  "persist_theme s =
     (None, case setItem (localStorage s) ''trayonTheme'' (theme_name (theme s)) of
              Inl x \<Rightarrow> s\<lparr>console := console s @ [''Failed to save theme'']\<rparr>
            | Inr st \<Rightarrow> s\<lparr>localStorage := st\<rparr>)
   \<and> persist_language s =
     (None, case setItem (localStorage s) ''trayonLanguage'' (language_name (language s)) of
              Inl x \<Rightarrow> s\<lparr>console := console s @ [''Failed to save language'']\<rparr>
            | Inr st \<Rightarrow> s\<lparr>localStorage := st\<rparr>)
   \<and> persist_history e s =
     (None, case setItem (localStorage s) ''trayonHistory''
                   (JSON_stringify e (JHistory (history s))) of
              Inl x \<Rightarrow> s\<lparr>console := console s @ [''Failed to save history'']\<rparr>
            | Inr st \<Rightarrow> s\<lparr>localStorage := st\<rparr>)
   \<and> persist_removeBgEnabled e s =
     (None, case setItem (localStorage s) ''trayonRemoveBg''
                   (JSON_stringify e (JBool (removeBgEnabled s))) of
              Inl x \<Rightarrow> s\<lparr>console := console s @ [''Failed to save removeBg setting'']\<rparr>
            | Inr st \<Rightarrow> s\<lparr>localStorage := st\<rparr>)
   \<and> persist_styleTheme s =
     (None, case setItem (localStorage s) ''trayonStyleTheme'' (styleTheme_name (styleTheme s)) of
              Inl x \<Rightarrow> s\<lparr>console := console s @ [''Failed to save style theme'']\<rparr>
            | Inr st \<Rightarrow> s\<lparr>localStorage := st\<rparr>)
   \<and> persist_personImage s =
     (None, case (case personImage s of
                    Some img \<Rightarrow> setItem (localStorage s) ''trayonPersonImage'' (previewUrl img)
                  | None \<Rightarrow> removeItem (localStorage s) ''trayonPersonImage'') of
              Inl x \<Rightarrow> s\<lparr>console := console s @ [''Failed to save person image'']\<rparr>
            | Inr st \<Rightarrow> s\<lparr>localStorage := st\<rparr>)
   \<and> persist_clothingImage s =
     (None, case (case clothingImage s of
                    Some img \<Rightarrow> setItem (localStorage s) ''trayonClothingImage'' (previewUrl img)
                  | None \<Rightarrow> removeItem (localStorage s) ''trayonClothingImage'') of
              Inl x \<Rightarrow> s\<lparr>console := console s @ [''Failed to save clothing image'']\<rparr>
            | Inr st \<Rightarrow> s\<lparr>localStorage := st\<rparr>)
   \<and> fst (load_effect e s) = None
   \<and> error (snd (load_effect e s)) = error s
   \<and> view (snd (load_effect e s)) = view s
   \<and> localStorage (snd (load_effect e s)) = localStorage s
   \<and> (console (snd (load_effect e s)) = console s
      \<or> console (snd (load_effect e s)) =
          console s @ [''Failed to load data from localStorage''])
   \<and> (denied (localStorage s) \<longrightarrow>
        load_effect e s =
          (None, s\<lparr>console := console s @ [''Failed to load data from localStorage'']\<rparr>))
   \<and> (\<exists>v. init_theme sto log = (Inr v, log))
   \<and> (\<exists>v. init_language sto log = (Inr v, log))
   \<and> (\<exists>v. init_removeBgEnabled e sto log = (Inr v, log))
   \<and> (\<exists>v. init_styleTheme sto log = (Inr v, log))
   \<and> (denied sto \<longrightarrow> init_theme sto log = (Inr ''light'', log))
   \<and> (denied sto \<longrightarrow> init_language sto log = (Inr ''ru'', log))
   \<and> (denied sto \<longrightarrow> init_removeBgEnabled e sto log = (Inr (JBool True), log))
   \<and> (denied sto \<longrightarrow> init_styleTheme sto log = (Inr Photorealistic, log))
   \<and> fst (handleSaveSession e s) = None
   \<and> (personImage s = Some p \<and> clothingImage s = Some c \<longrightarrow>
        handleSaveSession e s =
          (None,
           case setItem (localStorage s) ''trayonSavedSession''
                  (JSON_stringify e
                     (JSession \<lparr>session_personImage = previewUrl p,
                                 session_clothingImage = previewUrl c,
                                 session_removeBgEnabled = removeBgEnabled s,
                                 session_styleTheme = styleTheme s\<rparr>)) of
             Inl x \<Rightarrow> s\<lparr>error := Some (translate e s errorSaveSession)\<rparr>
           | Inr st \<Rightarrow>
               s\<lparr>localStorage := st,
                  savedSession := Some \<lparr>session_personImage = previewUrl p,
                                         session_clothingImage = previewUrl c,
                                         session_removeBgEnabled = removeBgEnabled s,
                                         session_styleTheme = styleTheme s\<rparr>,
                  alerts := alerts s @ [translate e s sessionSaved]\<rparr>))"
proof -
  note facts = persist_theme_caught persist_language_caught persist_history_caught
    persist_removeBgEnabled_caught persist_styleTheme_caught persist_personImage_caught
    persist_clothingImage_caught load_effect_caught load_effect_denied initialisers_caught
    initialisers_denied handleSaveSession_caught handleSaveSession_shown
  show ?thesis by (intro conjI) (rule facts)+
qed

lemma locked_state_simps:
  "personImage locked_state =
     Some \<lparr>file = png_file, previewUrl = ''blob:http://localhost:3000/p1''\<rparr>"
  "clothingImage locked_state =
     Some \<lparr>file = jpg_file, previewUrl = ''blob:http://localhost:3000/c1''\<rparr>"
  "localStorage locked_state = locked_storage" "console locked_state = []"
  "error locked_state = None" "view locked_state = TryOn" "denied locked_storage"
  "personImage full_state =
     Some \<lparr>file = png_file, previewUrl = ''blob:http://localhost:3000/p1''\<rparr>"
  "clothingImage full_state =
     Some \<lparr>file = jpg_file, previewUrl = ''blob:http://localhost:3000/c1''\<rparr>"
  "localStorage full_state = full_storage" "console full_state = []"
  "error full_state = None" "view full_state = TryOn" "\<not> denied full_storage"
  by (simp_all add: locked_state_def full_state_def locked_storage_def full_storage_def
      ready_state_def fresh_state_def empty_storage_def createObjectURL_def)

lemma locked_writes:
  "setItem locked_storage k v = Inl (DOMException ''SecurityError'')"
  "removeItem locked_storage k = Inl (DOMException ''SecurityError'')"
  "getItem locked_storage k = Inl (DOMException ''SecurityError'')"
  "setItem full_storage k v = Inl (DOMException ''QuotaExceededError'')"
  by (simp_all add: setItem_def removeItem_def getItem_def locked_storage_def full_storage_def
      empty_storage_def)

theorem storage_failures_caught_witness:
  "denied (localStorage locked_state)
   \<and> personImage locked_state =
       Some \<lparr>file = png_file, previewUrl = ''blob:http://localhost:3000/p1''\<rparr>
   \<and> clothingImage locked_state =
       Some \<lparr>file = jpg_file, previewUrl = ''blob:http://localhost:3000/c1''\<rparr>
   \<and> persist_theme locked_state =
       (None, locked_state\<lparr>console := [''Failed to save theme'']\<rparr>)
   \<and> persist_history studio_env locked_state =
       (None, locked_state\<lparr>console := [''Failed to save history'']\<rparr>)
   \<and> persist_personImage locked_state =
       (None, locked_state\<lparr>console := [''Failed to save person image'']\<rparr>)
   \<and> load_effect studio_env locked_state =
       (None, locked_state\<lparr>console := [''Failed to load data from localStorage'']\<rparr>)
   \<and> init_theme locked_storage [] = (Inr ''light'', [])
   \<and> init_removeBgEnabled studio_env locked_storage [] = (Inr (JBool True), [])
   \<and> handleSaveSession studio_env locked_state =
       (None, locked_state\<lparr>error := Some ''message''\<rparr>)"
  using storage_failures_caught[where s = locked_state and e = studio_env and sto = locked_storage
      and log = "[]"
      and p = "\<lparr>file = png_file, previewUrl = ''blob:http://localhost:3000/p1''\<rparr>"
      and c = "\<lparr>file = jpg_file, previewUrl = ''blob:http://localhost:3000/c1''\<rparr>"]
  by (simp add: locked_state_simps locked_writes translate_def studio_env_def)

text \<open>
  The claim as stated fails in \<open>handleSaveSession\<close>: when the storage is full or denies
  access, the write of the session fails, the \<open>catch\<close> block sets the error message that
  the user sees, and nothing is written to the console.  It also fails in the initialisers,
  whose bare \<open>catch\<close> logs nothing.
\<close>

theorem storage_failures_caught_counterexample:
  "personImage full_state =
     Some \<lparr>file = png_file, previewUrl = ''blob:http://localhost:3000/p1''\<rparr>
   \<and> clothingImage full_state =
     Some \<lparr>file = jpg_file, previewUrl = ''blob:http://localhost:3000/c1''\<rparr>
   \<and> error full_state = None
   \<and> setItem (localStorage full_state) ''trayonSavedSession''
        (JSON_stringify studio_env
           (JSession \<lparr>session_personImage = ''blob:http://localhost:3000/p1'',
                       session_clothingImage = ''blob:http://localhost:3000/c1'',
                       session_removeBgEnabled = True,
                       session_styleTheme = Photorealistic\<rparr>))
       = Inl (DOMException ''QuotaExceededError'')
   \<and> handleSaveSession studio_env full_state =
       (None, full_state\<lparr>error := Some ''message''\<rparr>)
   \<and> error (snd (handleSaveSession studio_env full_state)) = Some ''message''
   \<and> console (snd (handleSaveSession studio_env full_state)) = console full_state
   \<and> getItem locked_storage ''trayonTheme'' = Inl (DOMException ''SecurityError'')
   \<and> init_theme locked_storage [] = (Inr ''light'', [])"
  by (simp add: handleSaveSession_def Let_def locked_state_simps locked_writes translate_def
      studio_env_def init_theme_def)

text \<open>
  \<open>handleStartNew\<close> removes the two persisted previews outside any \<open>try\<close>: there a failure
  of the storage escapes, after the setters have run.
\<close>

lemma handleStartNew_escapes:
  "fst (handleStartNew locked_state) = Some (DOMException ''SecurityError'')"
  by (simp add: handleStartNew_def Let_def locked_state_simps locked_writes)

section \<open>Deleting a history item\<close>

lemma filter_enumerate_above:
  "i < n \<Longrightarrow> map snd (filter (\<lambda>(index, x). index \<noteq> i) (enumerate n xs)) = xs"
  by (induction xs arbitrary: n) auto

lemma filter_enumerate_drop:
  "n \<le> i \<Longrightarrow>
   map snd (filter (\<lambda>(index, x). index \<noteq> i) (enumerate n xs)) =
   take (i - n) xs @ drop (Suc (i - n)) xs"
proof (induction xs arbitrary: n)
  case Nil
  then show ?case by simp
next
  case (Cons x xs)
  show ?case
  proof (cases "n = i")
    case True
    then show ?thesis by (simp add: filter_enumerate_above)
  next
    case False
    with Cons.prems have "Suc n \<le> i" by simp
    then obtain k where k: "i - n = Suc k" "i - Suc n = k"
      by (metis Suc_diff_Suc Suc_le_lessD diff_Suc_eq_diff_pred diff_Suc_1)
    from Cons.IH[OF \<open>Suc n \<le> i\<close>] False show ?thesis
      by (simp add: k)
  qed
qed

lemma filter_index_drop:
  "filter_index (\<lambda>index. index \<noteq> i) xs = take i xs @ drop (Suc i) xs"
  using filter_enumerate_drop[of 0 i xs] by (simp add: filter_index_def)

text \<open>
  Claim C9.  For every history list and every valid index \<open>i\<close>, deleting the item at
  index \<open>i\<close> after confirmation gives the list without exactly the element at position
  \<open>i\<close>: it is one shorter, the elements before \<open>i\<close> keep their positions and the
  elements after \<open>i\<close> move up by one, in their order.
\<close>

theorem delete_history_item:
  assumes "i < length (history s)"
  shows "history (handleDeleteHistoryItem True i s) =
           take i (history s) @ drop (Suc i) (history s)
       \<and> length (history (handleDeleteHistoryItem True i s)) = length (history s) - 1
       \<and> (\<forall>j < i. history (handleDeleteHistoryItem True i s) ! j = history s ! j)
       \<and> (\<forall>j. i \<le> j \<and> j < length (history s) - 1 \<longrightarrow>
              history (handleDeleteHistoryItem True i s) ! j = history s ! Suc j)"
proof -
  have h: "history (handleDeleteHistoryItem True i s) =
      take i (history s) @ drop (Suc i) (history s)"
    by (simp add: handleDeleteHistoryItem_def filter_index_drop)
  have l: "length (take i (history s) @ drop (Suc i) (history s)) = length (history s) - 1"
    using assms by simp
  have lo: "(take i (history s) @ drop (Suc i) (history s)) ! j = history s ! j" if "j < i" for j
    using that assms by (simp add: nth_append)
  have hi: "(take i (history s) @ drop (Suc i) (history s)) ! j = history s ! Suc j"
    if "i \<le> j" "j < length (history s) - 1" for j
    using that assms by (simp add: nth_append min_def)
  show ?thesis unfolding h using l lo hi by blast
qed

theorem delete_history_item_witness:
  "(1::nat) < length (history (fresh_state\<lparr>history := three_items\<rparr>))
   \<and> history (handleDeleteHistoryItem True 1 (fresh_state\<lparr>history := three_items\<rparr>)) =
       [\<lparr>person = ''p0'', clothing = ''c0'', result = ''r0''\<rparr>,
        \<lparr>person = ''p2'', clothing = ''c2'', result = ''r2''\<rparr>]"
proof -
  have h: "(1::nat) < length (history (fresh_state\<lparr>history := three_items\<rparr>))"
    by (simp add: three_items_def)
  show ?thesis
    using h delete_history_item[OF h] by (simp add: three_items_def)
qed

lemma delete_history_item_declined: "handleDeleteHistoryItem False i s = s"
  by (simp add: handleDeleteHistoryItem_def)

end
